theory Spec2Isabelle
  imports Complex_Main "HOL-Library.Word" "HOL-Library.Sublist" "HOL-Library.Log_Nat"
begin

section \<open>Bytes, hexadecimal text and Python errors\<close>

text \<open>
  The three bots (\<^verbatim>\<open>ultimate_scalping_bot.py\<close>, \<^verbatim>\<open>order_book_hunter.py\<close>,
  \<^verbatim>\<open>experimental_color_trader.py\<close>) share one signing pipeline, copied verbatim.
  Python \<^verbatim>\<open>bytes\<close> are lists of 8-bit words, Python \<^verbatim>\<open>int\<close> is \<open>int\<close>, and every
  exception the code can raise is a value of \<open>py_error\<close>.
\<close>

type_synonym byte = "8 word"

datatype py_error =
    OverflowError | ValueError | ZeroDivisionError | KeyError | TypeError
  | AttributeError | IndexError | NetworkError

text \<open>\<^verbatim>\<open>int.to_bytes(length, "big")\<close>: the unsigned big-endian digits in base 256;
  a negative or too large integer raises \<^verbatim>\<open>OverflowError\<close>.\<close>

fun be_digits :: "int \<Rightarrow> nat \<Rightarrow> byte list" where
  "be_digits n 0 = []"
| "be_digits n (Suc k) = be_digits (n div 256) k @ [word_of_int n]"

definition to_bytes :: "int \<Rightarrow> nat \<Rightarrow> py_error + byte list" where
  "to_bytes n len =
     (if n < 0 then Inl OverflowError
      else if 256 ^ len \<le> n then Inl OverflowError
      else Inr (be_digits n len))"

text \<open>The value a byte string denotes when read as a big-endian unsigned number.\<close>

definition be_value :: "byte list \<Rightarrow> int" where
  "be_value bs = foldl (\<lambda>acc b. 256 * acc + uint b) 0 bs"

text \<open>\<^verbatim>\<open>str.removeprefix\<close>.\<close>

definition removeprefix :: "string \<Rightarrow> string \<Rightarrow> string" where
  "removeprefix p s = (if take (length p) s = p then drop (length p) s else s)"

definition hex_digit_val :: "char \<Rightarrow> nat option" where
  "hex_digit_val c =
     (let n = (of_char c :: nat) in
      if 48 \<le> n \<and> n \<le> 57 then Some (n - 48)
      else if 97 \<le> n \<and> n \<le> 102 then Some (n - 87)
      else if 65 \<le> n \<and> n \<le> 70 then Some (n - 55)
      else None)"

definition is_space :: "char \<Rightarrow> bool" where
  "is_space c = (of_char c \<in> {9, 10, 11, 12, 13, 32 :: nat})"

text \<open>\<^verbatim>\<open>bytes.fromhex\<close>: ASCII whitespace is skipped in front of a byte, then two
  hexadecimal digits are required; anything else raises \<^verbatim>\<open>ValueError\<close> (\<open>None\<close>).\<close>

fun fromhex :: "string \<Rightarrow> byte list option" where
  "fromhex [] = Some []"
| "fromhex [c] = (if is_space c then Some [] else None)"
| "fromhex (c # d # cs) =
     (if is_space c then fromhex (d # cs)
      else (case (hex_digit_val c, hex_digit_val d) of
              (Some h, Some l) \<Rightarrow> map_option ((#) (of_nat (16 * h + l))) (fromhex cs)
            | _ \<Rightarrow> None))"

text \<open>The text \<open>s\<close> spells the bytes \<open>bs\<close>: two hexadecimal digits (of either case) per
  byte, most significant digit first.\<close>

fun is_hex_of :: "string \<Rightarrow> byte list \<Rightarrow> bool" where
  "is_hex_of [] [] = True"
| "is_hex_of (c # d # cs) (b # bs) =
     (case (hex_digit_val c, hex_digit_val d) of
        (Some h, Some l) \<Rightarrow> b = of_nat (16 * h + l) \<and> is_hex_of cs bs
      | _ \<Rightarrow> False)"
| "is_hex_of _ _ = False"

section \<open>Serialize-and-hash: \<^verbatim>\<open>hash_action\<close>\<close>

text \<open>
  \<^verbatim>\<open>msgpack.packb\<close> and \<^verbatim>\<open>eth_utils.crypto.keccak\<close> are library functions; they are
  parameters \<open>packb\<close> and \<open>keccak\<close> of the model. The body is the same in all three
  files:
  \<^verbatim>\<open>
    data = msgpack.packb(action)
    data += nonce.to_bytes(8, "big")
    if vault is None: data += b"\x00"
    else: data += b"\x01"; data += bytes.fromhex(vault.removeprefix("0x"))
    return keccak(data)
  \<close>
\<close>

definition hash_action ::
  "('a \<Rightarrow> byte list) \<Rightarrow> (byte list \<Rightarrow> byte list) \<Rightarrow> 'a \<Rightarrow> string option \<Rightarrow> int
     \<Rightarrow> py_error + byte list" where
  "hash_action packb keccak action vault nonce =
     (case to_bytes nonce 8 of
        Inl e \<Rightarrow> Inl e
      | Inr nb \<Rightarrow>
          (let data = packb action @ nb in
           (case vault of
              None \<Rightarrow> Inr (keccak (data @ [0x00]))
            | Some v \<Rightarrow>
                (case fromhex (removeprefix ''0x'' v) of
                   None \<Rightarrow> Inl ValueError
                 | Some vb \<Rightarrow> Inr (keccak ((data @ [0x01]) @ vb))))))"

text \<open>What the specification appends after the nonce: \<open>0x00\<close> without a vault,
  \<open>0x01\<close> and the address bytes with one.\<close>

definition vault_suffix :: "byte list option \<Rightarrow> byte list" where
  "vault_suffix a = (case a of None \<Rightarrow> [0x00] | Some bs \<Rightarrow> 0x01 # bs)"

text \<open>The optional vault text denotes the optional 20-byte address: 40 hexadecimal
  digits, with or without the prefix \<^verbatim>\<open>0x\<close>.\<close>

definition vault_denotes :: "string option \<Rightarrow> byte list option \<Rightarrow> bool" where
  "vault_denotes vault addr =
     (case (vault, addr) of
        (None, None) \<Rightarrow> True
      | (Some v, Some a) \<Rightarrow> length a = 20 \<and> (is_hex_of v a \<or> is_hex_of (removeprefix ''0x'' v) a)
      | _ \<Rightarrow> False)"

section \<open>Sign: \<^verbatim>\<open>sign_inner\<close> and \<^verbatim>\<open>sign_action\<close>\<close>

text \<open>\<^verbatim>\<open>eth_utils.to_hex\<close>: on an integer it is Python's \<^verbatim>\<open>hex\<close> (\<^verbatim>\<open>0x\<close> and the
  digits without leading zeros), on bytes it is \<^verbatim>\<open>0x\<close> and two lower-case digits per
  byte.\<close>

definition hex_char :: "nat \<Rightarrow> char" where
  "hex_char d = ''0123456789abcdef'' ! d"

fun hex_digits :: "nat \<Rightarrow> string" where
  "hex_digits n = (if n < 16 then [hex_char n] else hex_digits (n div 16) @ [hex_char (n mod 16)])"

definition to_hex_int :: "nat \<Rightarrow> string" where
  "to_hex_int n = ''0x'' @ hex_digits n"

definition hex_of_byte :: "byte \<Rightarrow> string" where
  "hex_of_byte b = [hex_char (unat b div 16), hex_char (unat b mod 16)]"

definition to_hex_bytes :: "byte list \<Rightarrow> string" where
  "to_hex_bytes bs = ''0x'' @ concat (map hex_of_byte bs)"

text \<open>The typed-data dictionary of \<^verbatim>\<open>sign_action\<close>. The value under
  \<^verbatim>\<open>connectionId\<close> is the raw hash in \<^verbatim>\<open>ultimate_scalping_bot.py\<close> and
  \<^verbatim>\<open>order_book_hunter.py\<close>, and \<^verbatim>\<open>to_hex(h)\<close> in
  \<^verbatim>\<open>experimental_color_trader.py\<close>.\<close>

record eip712_domain =
  chainId :: int
  name :: string
  verifyingContract :: string
  version :: string

datatype connection_id = ConnBytes "byte list" | ConnHex string

record agent_message =
  source :: string
  connectionId :: connection_id

record typed_data =
  domain :: eip712_domain
  types :: "(string \<times> (string \<times> string) list) list"
  primaryType :: string
  message :: agent_message

text \<open>What \<^verbatim>\<open>account.sign_message(encode_typed_data(full_message=data))\<close> returns: the
  integers under \<^verbatim>\<open>r\<close>, \<^verbatim>\<open>s\<close> and \<^verbatim>\<open>v\<close>. The composition of the two library
  calls is the parameter \<open>sign_message\<close> of the model.\<close>

record signed_message =
  signed_r :: nat
  signed_s :: nat
  signed_v :: nat

text \<open>The dictionary \<^verbatim>\<open>{"r": ..., "s": ..., "v": ...}\<close> returned by \<^verbatim>\<open>sign_inner\<close>.\<close>

record signature =
  sig_r :: string
  sig_s :: string
  sig_v :: nat

definition sign_inner :: "(typed_data \<Rightarrow> signed_message) \<Rightarrow> typed_data \<Rightarrow> signature" where
  "sign_inner sign_message data =
     (let signed = sign_message data in
      \<lparr>sig_r = to_hex_int (signed_r signed),
       sig_s = to_hex_int (signed_s signed),
       sig_v = signed_v signed\<rparr>)"

definition agent_types :: "(string \<times> (string \<times> string) list) list" where
  "agent_types =
     [(''Agent'', [(''source'', ''string''), (''connectionId'', ''bytes32'')]),
      (''EIP712Domain'',
         [(''name'', ''string''), (''version'', ''string''),
          (''chainId'', ''uint256''), (''verifyingContract'', ''address'')])]"

definition exchange_domain :: eip712_domain where
  "exchange_domain =
     \<lparr>chainId = 1337, name = ''Exchange'',
      verifyingContract = ''0x0000000000000000000000000000000000000000'',
      version = ''1''\<rparr>"

text \<open>\<^verbatim>\<open>sign_action\<close> of \<^verbatim>\<open>ultimate_scalping_bot.py\<close> and \<^verbatim>\<open>order_book_hunter.py\<close>
  (the same text in both). An exception of \<^verbatim>\<open>hash_action\<close> propagates.\<close>

definition sign_action ::
  "('a \<Rightarrow> byte list) \<Rightarrow> (byte list \<Rightarrow> byte list) \<Rightarrow> (typed_data \<Rightarrow> signed_message)
     \<Rightarrow> 'a \<Rightarrow> string option \<Rightarrow> int \<Rightarrow> bool \<Rightarrow> py_error + signature" where
  "sign_action packb keccak sign_message action vault nonce is_mainnet =
     (case hash_action packb keccak action vault nonce of
        Inl e \<Rightarrow> Inl e
      | Inr h \<Rightarrow>
          (let msg = \<lparr>source = (if is_mainnet then ''a'' else ''b''), connectionId = ConnBytes h\<rparr>;
               data = \<lparr>domain = exchange_domain, types = agent_types,
                       primaryType = ''Agent'', message = msg\<rparr>
           in Inr (sign_inner sign_message data)))"

text \<open>\<^verbatim>\<open>sign_action\<close> of \<^verbatim>\<open>experimental_color_trader.py\<close>: the message carries
  \<^verbatim>\<open>to_hex(h)\<close>.\<close>

definition ct_sign_action ::
  "('a \<Rightarrow> byte list) \<Rightarrow> (byte list \<Rightarrow> byte list) \<Rightarrow> (typed_data \<Rightarrow> signed_message)
     \<Rightarrow> 'a \<Rightarrow> string option \<Rightarrow> int \<Rightarrow> bool \<Rightarrow> py_error + signature" where
  "ct_sign_action packb keccak sign_message action vault nonce is_mainnet =
     (case hash_action packb keccak action vault nonce of
        Inl e \<Rightarrow> Inl e
      | Inr h \<Rightarrow>
          (let msg = \<lparr>source = (if is_mainnet then ''a'' else ''b''),
                      connectionId = ConnHex (to_hex_bytes h)\<rparr>;
               data = \<lparr>domain = exchange_domain, types = agent_types,
                       primaryType = ''Agent'', message = msg\<rparr>
           in Inr (sign_inner sign_message data)))"

text \<open>The bytes a \<^verbatim>\<open>bytes32\<close> value of the message stands for: a bytes object is
  itself, a hexadecimal string is decoded.\<close>

definition connection_bytes :: "connection_id \<Rightarrow> byte list option" where
  "connection_bytes c =
     (case c of ConnBytes b \<Rightarrow> Some b | ConnHex t \<Rightarrow> fromhex (removeprefix ''0x'' t))"

text \<open>The typed data the specification describes, for a mainnet flag and an action
  hash: the fixed domain, the \<^verbatim>\<open>Agent\<close> type with its two fields, the primary type, a
  one-character source marker and the hash as connection id.\<close>

definition agent_typed_data :: "bool \<Rightarrow> byte list \<Rightarrow> typed_data \<Rightarrow> bool" where
  "agent_typed_data is_mainnet h d =
     (chainId (domain d) = 1337 \<and> name (domain d) = ''Exchange'' \<and>
      verifyingContract (domain d) = ''0x'' @ replicate 40 CHR ''0'' \<and>
      version (domain d) = ''1'' \<and>
      map_of (types d) ''Agent'' = Some [(''source'', ''string''), (''connectionId'', ''bytes32'')] \<and>
      primaryType d = ''Agent'' \<and>
      source (message d) = (if is_mainnet then ''a'' else ''b'') \<and>
      length (source (message d)) = 1 \<and>
      connection_bytes (connectionId (message d)) = Some h)"

section \<open>Python floats\<close>

text \<open>
  A finite Python \<^verbatim>\<open>float\<close> is modelled by the (rational) real number it denotes. Every
  arithmetic operation computes the exact result and rounds it to the nearest IEEE 754
  double (53 significant bits, ties to even, gradual underflow below \<open>2\<^sup>-\<^sup>1\<^sup>0\<^sup>2\<^sup>2\<close>).
  The two zeros are one value, and infinities and NaN are outside the model: results
  are taken to stay below the largest finite double, as prices, sizes and clock
  readings do.
\<close>

type_synonym pyfloat = real

text \<open>Rounding a real number to an integer, a tie going to the even neighbour.\<close>

definition round_half_even :: "real \<Rightarrow> int" where
  "round_half_even q =
     (let f = \<lfloor>q\<rfloor>; d = q - of_int f in
      if d < 1 / 2 then f
      else if 1 / 2 < d then f + 1
      else if even f then f else f + 1)"

text \<open>The binary exponent of a positive number \<open>q\<close>: the \<open>e\<close> with
  \<open>2\<^sup>e \<le> q < 2\<^sup>e\<^sup>+\<^sup>1\<close>, read off the bit length of the integer part of \<open>q\<close> (when
  \<open>q \<ge> 1\<close>) or of its reciprocal.\<close>

definition binexp :: "real \<Rightarrow> int" where
  "binexp q = (if 1 \<le> q then bitlen \<lfloor>q\<rfloor> - 1 else - bitlen (\<lceil>1 / q\<rceil> - 1))"

definition round_double :: "real \<Rightarrow> pyfloat" where
  "round_double q =
     (if q = 0 then 0
      else (let e = max (binexp \<bar>q\<bar>) (- 1022); u = 2 powi (e - 52) in
            of_int (round_half_even (q / u)) * u))"

definition fadd :: "pyfloat \<Rightarrow> pyfloat \<Rightarrow> pyfloat" where
  "fadd x y = round_double (x + y)"

definition fsub :: "pyfloat \<Rightarrow> pyfloat \<Rightarrow> pyfloat" where
  "fsub x y = round_double (x - y)"

definition fmul :: "pyfloat \<Rightarrow> pyfloat \<Rightarrow> pyfloat" where
  "fmul x y = round_double (x * y)"

text \<open>Division raises \<^verbatim>\<open>ZeroDivisionError\<close> on a zero divisor.\<close>

definition fdiv :: "pyfloat \<Rightarrow> pyfloat \<Rightarrow> py_error + pyfloat" where
  "fdiv x y = (if y = 0 then Inl ZeroDivisionError else Inr (round_double (x / y)))"

text \<open>A decimal literal of the source, \<^verbatim>\<open>1.01\<close> being \<open>float_lit 101 100\<close>.\<close>

definition float_lit :: "int \<Rightarrow> int \<Rightarrow> pyfloat" where
  "float_lit n d = round_double (of_int n / of_int d)"

text \<open>\<^verbatim>\<open>round(x, ndigits)\<close>: the decimal rounding (ties to even) of the exact value,
  as a float; \<^verbatim>\<open>round(x)\<close>: the same to an integer; \<^verbatim>\<open>int(x)\<close>: truncation towards
  zero.\<close>

definition py_round :: "pyfloat \<Rightarrow> nat \<Rightarrow> pyfloat" where
  "py_round x ndigits = round_double (of_int (round_half_even (x * 10 ^ ndigits)) / 10 ^ ndigits)"

definition py_round_int :: "pyfloat \<Rightarrow> int" where
  "py_round_int x = round_half_even x"

definition py_int :: "pyfloat \<Rightarrow> int" where
  "py_int x = (if 0 \<le> x then \<lfloor>x\<rfloor> else \<lceil>x\<rceil>)"

section \<open>Decimal text\<close>

definition digit_char :: "nat \<Rightarrow> char" where
  "digit_char d = ''0123456789'' ! d"

fun dec_digits :: "nat \<Rightarrow> string" where
  "dec_digits n = (if n < 10 then [digit_char n] else dec_digits (n div 10) @ [digit_char (n mod 10)])"

text \<open>\<^verbatim>\<open>str\<close> of an integer.\<close>

definition str_int :: "int \<Rightarrow> string" where
  "str_int i = (if i < 0 then CHR ''-'' # dec_digits (nat (- i)) else dec_digits (nat i))"

definition zero_pad :: "nat \<Rightarrow> string \<Rightarrow> string" where
  "zero_pad w ds = replicate (w - length ds) CHR ''0'' @ ds"

text \<open>The format \<^verbatim>\<open>f"{x:.{d}f}"\<close> of a float: the exact value rounded to \<open>d\<close>
  decimals (ties to even), a minus sign for a negative \<open>x\<close>, the integer digits, and a
  point with \<open>d\<close> digits when \<open>d > 0\<close>.\<close>

definition format_fixed :: "nat \<Rightarrow> pyfloat \<Rightarrow> string" where
  "format_fixed d x =
     (let m = nat (round_half_even (\<bar>x\<bar> * 10 ^ d));
          ip = dec_digits (m div 10 ^ d);
          fp = zero_pad d (dec_digits (m mod 10 ^ d))
      in (if x < 0 then ''-'' else '''') @ ip @ (if d = 0 then '''' else CHR ''.'' # fp))"

text \<open>The decimal rounding of \<open>x\<close> to \<open>d\<close> places (ties to even on the magnitude),
  as a number: what the digits of \<open>format_fixed d x\<close> denote.\<close>

definition fixed_value :: "nat \<Rightarrow> real \<Rightarrow> real" where
  "fixed_value d x =
     (if x < 0 then - 1 else 1) * of_int (round_half_even (\<bar>x\<bar> * 10 ^ d)) / 10 ^ d"

definition digit_val :: "char \<Rightarrow> nat option" where
  "digit_val c =
     (let n = (of_char c :: nat) in if 48 \<le> n \<and> n \<le> 57 then Some (n - 48) else None)"

text \<open>The number a string of decimal digits denotes; \<open>None\<close> when a character is not
  a digit.\<close>

fun digits_value :: "nat \<Rightarrow> string \<Rightarrow> nat option" where
  "digits_value acc [] = Some acc"
| "digits_value acc (c # cs) =
     (case digit_val c of None \<Rightarrow> None | Some d \<Rightarrow> digits_value (10 * acc + d) cs)"

text \<open>The value of a decimal numeral: an optional minus sign, at least one digit, and
  optionally a point with further digits. This is the part of the grammar of
  \<^verbatim>\<open>float(...)\<close> and \<^verbatim>\<open>Decimal(...)\<close> that the formatted strings use; other text is
  \<open>None\<close> (\<^verbatim>\<open>ValueError\<close>).\<close>

definition unsigned_value :: "string \<Rightarrow> real option" where
  "unsigned_value body =
     (let ip = takeWhile (\<lambda>c. c \<noteq> CHR ''.'') body;
          fp = drop 1 (dropWhile (\<lambda>c. c \<noteq> CHR ''.'') body)
      in if ip = [] then None
         else (case (digits_value 0 ip, digits_value 0 fp) of
                 (Some i, Some f) \<Rightarrow> Some (of_nat i + of_nat f / 10 ^ length fp)
               | _ \<Rightarrow> None))"

definition parse_decimal :: "string \<Rightarrow> real option" where
  "parse_decimal t =
     (case t of
        [] \<Rightarrow> None
      | c # cs \<Rightarrow> if c = CHR ''-'' then map_option uminus (unsigned_value cs)
                  else unsigned_value t)"

text \<open>\<^verbatim>\<open>float(text)\<close>: the nearest double to the decimal value.\<close>

definition float_of_string :: "string \<Rightarrow> py_error + pyfloat" where
  "float_of_string t =
     (case parse_decimal t of None \<Rightarrow> Inl ValueError | Some q \<Rightarrow> Inr (round_double q))"

text \<open>A \<^verbatim>\<open>decimal.Decimal\<close>: sign, coefficient and exponent.\<close>

datatype decimal = Decimal (dec_neg: bool) (dec_coeff: nat) (dec_exp: int)


text \<open>\<^verbatim>\<open>Decimal(text)\<close> for the same grammar: the digits without the point are the
  coefficient, the number of decimals gives the exponent.\<close>

definition decimal_of_string :: "string \<Rightarrow> py_error + decimal" where
  "decimal_of_string t =
     (let neg = (t \<noteq> [] \<and> hd t = CHR ''-'');
          body = (if neg then tl t else t);
          ip = takeWhile (\<lambda>c. c \<noteq> CHR ''.'') body;
          fp = drop 1 (dropWhile (\<lambda>c. c \<noteq> CHR ''.'') body)
      in if ip = [] then Inl ValueError
         else (case digits_value 0 (ip @ fp) of
                 None \<Rightarrow> Inl ValueError
               | Some c \<Rightarrow> Inr (Decimal neg c (- int (length fp)))))"

text \<open>\<^verbatim>\<open>Decimal.normalize\<close>: trailing zeros of the coefficient move into the
  exponent; a zero gets exponent 0 and keeps its sign.\<close>

fun strip_zeros :: "nat \<Rightarrow> int \<Rightarrow> nat \<times> int" where
  "strip_zeros c e =
     (if c \<noteq> 0 \<and> c mod 10 = 0 then strip_zeros (c div 10) (e + 1) else (c, e))"

definition normalize_decimal :: "decimal \<Rightarrow> decimal" where
  "normalize_decimal x =
     (if dec_coeff x = 0 then Decimal (dec_neg x) 0 0
      else (case strip_zeros (dec_coeff x) (dec_exp x) of (c, e) \<Rightarrow> Decimal (dec_neg x) c e))"

text \<open>The format \<^verbatim>\<open>f"{d:f}"\<close> of a Decimal: plain positional notation, zeros appended
  for a positive exponent, the point inserted for a negative one.\<close>

definition format_decimal :: "decimal \<Rightarrow> string" where
  "format_decimal x =
     (let ds = dec_digits (dec_coeff x);
          sgn = (if dec_neg x then ''-'' else '''')
      in if 0 \<le> dec_exp x then sgn @ ds @ replicate (nat (dec_exp x)) CHR ''0''
         else (let k = nat (- dec_exp x); ps = zero_pad (k + 1) ds
               in sgn @ take (length ps - k) ps @ CHR ''.'' # drop (length ps - k) ps))"

section \<open>The formatter \<^verbatim>\<open>round_float\<close>\<close>

text \<open>
  \<^verbatim>\<open>ultimate_scalping_bot.py\<close> and \<^verbatim>\<open>order_book_hunter.py\<close> (the same text):
  \<^verbatim>\<open>
    rounded = f"{x:.8f}"
    if abs(float(rounded) - x) >= 1e-12: raise ValueError("round_float causes rounding", x)
    if rounded == "-0": rounded = "0"
    normalized = Decimal(rounded).normalize()
    return f"{normalized:f}"
  \<close>
\<close>

definition round_float :: "pyfloat \<Rightarrow> py_error + string" where
  "round_float x =
     (let rounded = format_fixed 8 x in
      case float_of_string rounded of
        Inl e \<Rightarrow> Inl e
      | Inr y \<Rightarrow>
          if float_lit 1 (10 ^ 12) \<le> \<bar>fsub y x\<bar> then Inl ValueError
          else (let rounded' = (if rounded = ''-0'' then ''0'' else rounded) in
                case decimal_of_string rounded' of
                  Inl e \<Rightarrow> Inl e
                | Inr dc \<Rightarrow> Inr (format_decimal (normalize_decimal dc))))"

text \<open>
  \<^verbatim>\<open>experimental_color_trader.py\<close>:
  \<^verbatim>\<open>
    def round_float(self, value: float, decimals: int = 2) -> str:
        if decimals == 0: return str(int(round(value)))
        return f"{value:.{decimals}f}"
  \<close>
\<close>

definition ct_round_float :: "pyfloat \<Rightarrow> nat \<Rightarrow> string" where
  "ct_round_float val decimals =
     (if decimals = 0 then str_int (py_round_int val) else format_fixed decimals val)"

section \<open>Orders, payloads and exchange responses\<close>

text \<open>
  An order dictionary \<^verbatim>\<open>{"a": ..., "b": ..., "p": ..., "s": ..., "r": ..., "t": ...}\<close>:
  asset index, buy flag, limit price text, size text, reduce-only flag and order type
  (\<^verbatim>\<open>{"limit": {"tif": ...}}\<close> or \<^verbatim>\<open>{"trigger": {"isMarket": ..., "triggerPx": ...,
  "tpsl": ...}}\<close>).
\<close>

datatype tif = Ioc | Gtc

datatype tpsl = Sl | Tp

datatype order_type = Limit tif | Trigger bool string tpsl

datatype order =
  Order (asset: nat) (is_buy: bool) (limit_px: string) (sz: string) (reduce_only: bool)
    (order_type: order_type)

datatype grouping = Na | NormalTpsl

text \<open>An action: \<^verbatim>\<open>{"type": "order", "orders": ..., "grouping": ...}\<close> or
  \<^verbatim>\<open>{"type": "cancel", "cancels": [{"a": ..., "o": ...}]}\<close>.\<close>

datatype action = OrderAction "order list" grouping | CancelAction nat string

text \<open>The JSON body posted to \<^verbatim>\<open>https://api.hyperliquid.xyz/exchange\<close>.\<close>

record payload =
  pl_action :: action
  pl_nonce :: int
  pl_signature :: signature
  pl_vaultAddress :: "string option"

text \<open>What a run does to the outside world, in order: HTTP posts and sleeps.\<close>

datatype event = Post payload | Sleep pyfloat

text \<open>\<^verbatim>\<open>self.sign_action\<close> with the libraries fixed: action, vault, nonce and mainnet
  flag to a signature or an exception.\<close>

type_synonym signer = "action \<Rightarrow> string option \<Rightarrow> int \<Rightarrow> bool \<Rightarrow> py_error + signature"

text \<open>The request nonce, \<^verbatim>\<open>int(time.time() * 1000)\<close>, from the clock reading.\<close>

definition nonce_of_clock :: "pyfloat \<Rightarrow> int" where
  "nonce_of_clock now = py_int (fmul now 1000)"

text \<open>
  The response. A status entry is \<^verbatim>\<open>{"filled": {"oid", "totalSz", "avgPx"}}\<close>,
  \<^verbatim>\<open>{"resting": {"oid"}}\<close>, \<^verbatim>\<open>{"error": message}\<close> or a bare string (the exchange
  answers \<^verbatim>\<open>"waitingForFill"\<close> or \<^verbatim>\<open>"waitingForTrigger"\<close> for the legs of a group).
  The numeric fields of a fill are kept as the floats \<^verbatim>\<open>float(...)\<close> makes of them;
  a key can be missing. The value under \<^verbatim>\<open>response\<close> is an object with an optional
  \<^verbatim>\<open>data\<close> object, or a string (the message of a rejection).
\<close>

record filled_data =
  oid :: "nat option"
  totalSz :: "pyfloat option"
  avgPx :: "pyfloat option"

datatype order_status =
  Filled filled_data | Resting nat | ErrorStatus string | StatusText string

record api_data =
  statuses :: "order_status list option"

datatype api_response = ResponseText string | ResponseObj "api_data option"

record api_result =
  status :: "string option"
  response :: "api_response option"

text \<open>What \<^verbatim>\<open>requests.post\<close> does: it raises, or returns a status code and a body
  that is JSON (\<open>Some\<close>) or not (\<^verbatim>\<open>response.json()\<close> raises).\<close>

datatype http_reply = ConnectionError | HttpReply nat "api_result option"

text \<open>The clock reading and the reply that one submission meets.\<close>

type_synonym post_io = "pyfloat \<times> http_reply"

text \<open>\<^verbatim>\<open>needle in text\<close> on strings.\<close>

fun contains :: "string \<Rightarrow> string \<Rightarrow> bool" where
  "contains p [] = (p = [])"
| "contains p (c # cs) = (take (length p) (c # cs) = p \<or> contains p cs)"

text \<open>Truth value of a fill dictionary: it is not empty.\<close>

definition filled_truthy :: "filled_data \<Rightarrow> bool" where
  "filled_truthy fd = (oid fd \<noteq> None \<or> totalSz fd \<noteq> None \<or> avgPx fd \<noteq> None)"

section \<open>Position state\<close>

text \<open>
  The position attributes of a bot object. \<^verbatim>\<open>entry_order_data\<close> holds the fill
  dictionary in the color trader and the whole status entry in the order book hunter,
  hence the type parameter. Directions are the strings \<^verbatim>\<open>"long"\<close> and \<^verbatim>\<open>"short"\<close>,
  signals \<^verbatim>\<open>"LONG"\<close> and \<^verbatim>\<open>"SHORT"\<close>.
\<close>

datatype direction = Long | Short

datatype signal = LONG | SHORT

fun lower :: "signal \<Rightarrow> direction" where
  "lower LONG = Long"
| "lower SHORT = Short"

record 'd bot_state =
  position_open :: bool
  position_direction :: "direction option"
  position_size :: "pyfloat option"
  entry_order_data :: "'d option"
  current_position :: "direction option"
  entry_time :: "pyfloat option"
  entry_price :: "pyfloat option"
  current_signal :: "signal option"
  last_signal_time :: pyfloat

section \<open>The color trader (\<^verbatim>\<open>experimental_color_trader.py\<close>)\<close>

definition position_usd :: pyfloat where
  "position_usd = 4000"

definition signal_cooldown :: pyfloat where
  "signal_cooldown = 2"

text \<open>\<^verbatim>\<open>place_order_raw\<close>: any exception (signing, transport, a body that is not
  JSON) and any status code but 200 give \<^verbatim>\<open>None\<close>.\<close>

definition ct_place_order_raw ::
  "signer \<Rightarrow> action \<Rightarrow> post_io \<Rightarrow> api_result option \<times> event list" where
  "ct_place_order_raw sign action io =
     (case io of (now, reply) \<Rightarrow>
        (let nonce = nonce_of_clock now in
         case sign action None nonce True of
           Inl e \<Rightarrow> (None, [])
         | Inr sg \<Rightarrow>
             (let sent = [Post \<lparr>pl_action = action, pl_nonce = nonce, pl_signature = sg,
                                 pl_vaultAddress = None\<rparr>] in
              case reply of
                ConnectionError \<Rightarrow> (None, sent)
              | HttpReply code body \<Rightarrow>
                  if code = 200 then (case body of None \<Rightarrow> (None, sent) | Some res \<Rightarrow> (Some res, sent))
                  else (None, sent))))"

text \<open>
  \<^verbatim>\<open>if result and 'response' in result and 'data' in result['response']:
      statuses = result['response']['data']['statuses']\<close>:
  the statuses, \<open>None\<close> for the \<^verbatim>\<open>else\<close> branch, or the exception of the lookup.
\<close>

definition ct_statuses :: "api_result option \<Rightarrow> py_error + order_status list option" where
  "ct_statuses result =
     (case result of
        None \<Rightarrow> Inr None
      | Some res \<Rightarrow>
          (case response res of
             None \<Rightarrow> Inr None
           | Some (ResponseText txt) \<Rightarrow> if contains ''data'' txt then Inl TypeError else Inr None
           | Some (ResponseObj None) \<Rightarrow> Inr None
           | Some (ResponseObj (Some d)) \<Rightarrow>
               (case statuses d of None \<Rightarrow> Inl KeyError | Some sts \<Rightarrow> Inr (Some sts))))"

text \<open>\<^verbatim>\<open>for status in statuses: if 'filled' in status: filled_data = status['filled'] ...\<close>:
  the first fill, if any; indexing a string status raises.\<close>

fun first_filled :: "order_status list \<Rightarrow> py_error + filled_data option" where
  "first_filled [] = Inr None"
| "first_filled (Filled fd # rest) = Inr (Some fd)"
| "first_filled (StatusText txt # rest) =
     (if contains ''filled'' txt then Inl TypeError else first_filled rest)"
| "first_filled (other # rest) = first_filled rest"

definition ct_entry_action :: "direction \<Rightarrow> pyfloat \<Rightarrow> pyfloat \<Rightarrow> action" where
  "ct_entry_action direction entry_px position_size_sol =
     (let is_buy = (direction = Long);
          order_price = (if is_buy then py_round (fmul entry_px (float_lit 101 100)) 2
                         else py_round (fmul entry_px (float_lit 99 100)) 2)
      in OrderAction
           [Order 5 is_buy (ct_round_float order_price 2) (ct_round_float position_size_sol 2)
              False (Limit Ioc)] Na)"

text \<open>\<^verbatim>\<open>enter_position(direction, entry_price)\<close> (the price is \<open>entry_px\<close>): the new state, the returned flag and
  the events.\<close>

definition ct_enter_position ::
  "signer \<Rightarrow> filled_data bot_state \<Rightarrow> direction \<Rightarrow> pyfloat \<Rightarrow> post_io
     \<Rightarrow> filled_data bot_state \<times> bool \<times> event list" where
  "ct_enter_position sign st direction entry_px io =
     (case fdiv position_usd entry_px of
        Inl e \<Rightarrow> (st, False, [])
      | Inr q \<Rightarrow>
          (let position_size_sol = max (float_lit 1 100) (py_round q 2);
               order_action = ct_entry_action direction entry_px position_size_sol
           in case ct_place_order_raw sign order_action io of
                (result, sent) \<Rightarrow>
                  (case ct_statuses result of
                     Inl e \<Rightarrow> (st, False, sent)
                   | Inr None \<Rightarrow> (st, False, sent)
                   | Inr (Some sts) \<Rightarrow>
                       (case first_filled sts of
                          Inl e \<Rightarrow> (st, False, sent)
                        | Inr None \<Rightarrow> (st, False, sent)
                        | Inr (Some fd) \<Rightarrow>
                            (st\<lparr>entry_order_data := Some fd,
                                position_size := Some (case totalSz fd of None \<Rightarrow> 0 | Some z \<Rightarrow> z),
                                position_direction := Some direction,
                                position_open := True,
                                current_position := Some direction\<rparr>,
                             True, sent)))))"

text \<open>The \<^verbatim>\<open>finally\<close> block of \<^verbatim>\<open>close_position\<close>.\<close>

definition ct_finally :: "filled_data bot_state \<Rightarrow> filled_data bot_state" where
  "ct_finally st =
     (if \<not> position_open st
      then st\<lparr>entry_order_data := None, position_size := None, position_direction := None,
              current_position := None\<rparr>
      else st)"

definition ct_close_action :: "direction \<Rightarrow> pyfloat \<Rightarrow> pyfloat \<Rightarrow> action" where
  "ct_close_action held current_price close_sz =
     (let is_buy = (held \<noteq> Long);
          close_price = (if is_buy then py_round (fmul current_price (float_lit 101 100)) 2
                         else py_round (fmul current_price (float_lit 99 100)) 2)
      in OrderAction
           [Order 5 is_buy (ct_round_float close_price 2) (ct_round_float close_sz 2)
              True (Limit Ioc)] Na)"

text \<open>\<^verbatim>\<open>if not self.position_size: self.position_size = round(self.position_usd /
  current_price, 2)\<close>.\<close>

definition ct_ensure_size ::
  "filled_data bot_state \<Rightarrow> pyfloat \<Rightarrow> py_error + filled_data bot_state" where
  "ct_ensure_size st current_price =
     (if position_size st = None \<or> position_size st = Some 0
      then (case fdiv position_usd current_price of
              Inl e \<Rightarrow> Inl e
            | Inr q \<Rightarrow> Inr (st\<lparr>position_size := Some (py_round q 2)\<rparr>))
      else Inr st)"

text \<open>\<^verbatim>\<open>close_position()\<close>, with the price that \<^verbatim>\<open>get_current_price\<close> returns
  (\<open>None\<close> on failure).\<close>

definition ct_close_position ::
  "signer \<Rightarrow> filled_data bot_state \<Rightarrow> pyfloat option \<Rightarrow> post_io
     \<Rightarrow> filled_data bot_state \<times> bool \<times> event list" where
  "ct_close_position sign st price io =
     (if \<not> position_open st then (ct_finally st, True, [])
      else (case position_direction st of
              None \<Rightarrow> (ct_finally st, False, [])
            | Some held \<Rightarrow>
                (case price of
                   None \<Rightarrow> (ct_finally st, False, [])
                 | Some current_price \<Rightarrow>
                     (case ct_ensure_size st current_price of
                        Inl e \<Rightarrow> (ct_finally st, False, [])
                      | Inr st1 \<Rightarrow>
                          (let close_action =
                                 ct_close_action held current_price (the (position_size st1))
                           in case ct_place_order_raw sign close_action io of
                                (result, sent) \<Rightarrow>
                                  (case ct_statuses result of
                                     Inl e \<Rightarrow> (ct_finally st1, False, sent)
                                   | Inr None \<Rightarrow> (ct_finally st1, False, sent)
                                   | Inr (Some sts) \<Rightarrow>
                                       (case first_filled sts of
                                          Inl e \<Rightarrow> (ct_finally st1, False, sent)
                                        | Inr None \<Rightarrow> (ct_finally st1, False, sent)
                                        | Inr (Some fd) \<Rightarrow>
                                            (ct_finally
                                               (st1\<lparr>entry_order_data := None,
                                                    position_size := None,
                                                    position_direction := None,
                                                    position_open := False,
                                                    current_position := None\<rparr>),
                                             True, sent))))))))"

text \<open>Step 2 of \<^verbatim>\<open>flip_position\<close>: open the new position and, on success, set
  \<^verbatim>\<open>current_position\<close>.\<close>

definition ct_open_new ::
  "signer \<Rightarrow> filled_data bot_state \<Rightarrow> direction \<Rightarrow> pyfloat \<Rightarrow> post_io
     \<Rightarrow> filled_data bot_state \<times> bool \<times> event list" where
  "ct_open_new sign st new_direction current_price io =
     (case ct_enter_position sign st new_direction current_price io of
        (st1, open_success, sent) \<Rightarrow>
          if open_success then (st1\<lparr>current_position := Some new_direction\<rparr>, True, sent)
          else (st1, False, sent))"

text \<open>
  \<^verbatim>\<open>flip_position(new_direction)\<close>. \<open>price1\<close> is the price read at the start (used
  for the entry), \<open>price2\<close> and \<open>close_io\<close> are what the close meets, \<open>entry_io\<close>
  what the entry meets.
\<close>

definition ct_flip_position ::
  "signer \<Rightarrow> filled_data bot_state \<Rightarrow> direction \<Rightarrow> pyfloat option \<Rightarrow> pyfloat option
     \<Rightarrow> post_io \<Rightarrow> post_io \<Rightarrow> filled_data bot_state \<times> bool \<times> event list" where
  "ct_flip_position sign st new_direction price1 price2 close_io entry_io =
     (case price1 of
        None \<Rightarrow> (st, False, [])
      | Some current_price \<Rightarrow>
          if position_open st \<and> (case entry_order_data st of None \<Rightarrow> False | Some fd \<Rightarrow> filled_truthy fd)
          then (case ct_close_position sign st price2 close_io of
                  (st1, close_success, sent1) \<Rightarrow>
                    if \<not> close_success then (st1, False, sent1)
                    else (case ct_open_new sign st1 new_direction current_price entry_io of
                            (st2, ok, sent2) \<Rightarrow> (st2, ok, sent1 @ Sleep 10 # sent2)))
          else ct_open_new sign st new_direction current_price entry_io)"

text \<open>
  One pass of the loop of \<^verbatim>\<open>run\<close>. \<open>detected\<close> is \<open>None\<close> when no image could be
  captured and otherwise the result of \<^verbatim>\<open>detect_color_signal\<close>; the pass ends with
  \<^verbatim>\<open>asyncio.sleep(0.5)\<close>.
\<close>

definition ct_run_step ::
  "signer \<Rightarrow> filled_data bot_state \<Rightarrow> pyfloat \<Rightarrow> signal option option \<Rightarrow> pyfloat option
     \<Rightarrow> pyfloat option \<Rightarrow> post_io \<Rightarrow> post_io \<Rightarrow> filled_data bot_state \<times> event list" where
  "ct_run_step sign st current_time detected price1 price2 close_io entry_io =
     (if signal_cooldown \<le> fsub current_time (last_signal_time st) then
        (case detected of
           None \<Rightarrow> (st, [Sleep (1 / 2)])
         | Some None \<Rightarrow> (st, [Sleep (1 / 2)])
         | Some (Some sg) \<Rightarrow>
             if Some sg \<noteq> current_signal st then
               (case (if Some (lower sg) \<noteq> current_position st
                      then (case ct_flip_position sign st (lower sg) price1 price2 close_io entry_io of
                              (st1, ok, sent) \<Rightarrow> (st1, sent))
                      else (st, [])) of
                  (st1, sent) \<Rightarrow>
                    (st1\<lparr>current_signal := Some sg, last_signal_time := current_time\<rparr>,
                     sent @ [Sleep (1 / 2)]))
             else (st, [Sleep (1 / 2)]))
      else (st, [Sleep (1 / 2)]))"

section \<open>Observing a run\<close>

text \<open>The actions that a list of events posts, in order.\<close>

fun posted_actions :: "event list \<Rightarrow> action list" where
  "posted_actions [] = []"
| "posted_actions (Post pl # evs) = pl_action pl # posted_actions evs"
| "posted_actions (Sleep d # evs) = posted_actions evs"

fun posted_nonces :: "event list \<Rightarrow> int list" where
  "posted_nonces [] = []"
| "posted_nonces (Post pl # evs) = pl_nonce pl # posted_nonces evs"
| "posted_nonces (Sleep d # evs) = posted_nonces evs"

text \<open>An action that can open or increase a position: an order action with an order
  that is not reduce-only.\<close>

fun is_entry_action :: "action \<Rightarrow> bool" where
  "is_entry_action (OrderAction orders g) = list_ex (\<lambda>x. \<not> reduce_only x) orders"
| "is_entry_action (CancelAction a t) = False"

text \<open>The statuses that a reply carries: those of a 200 response with a JSON body
  whose \<^verbatim>\<open>response.data.statuses\<close> exists, and none otherwise.\<close>

definition reply_statuses :: "http_reply \<Rightarrow> order_status list" where
  "reply_statuses reply =
     (case reply of
        ConnectionError \<Rightarrow> []
      | HttpReply code body \<Rightarrow>
          if code \<noteq> 200 then []
          else (case body of
                  None \<Rightarrow> []
                | Some res \<Rightarrow>
                    (case response res of
                       Some (ResponseObj (Some d)) \<Rightarrow> (case statuses d of None \<Rightarrow> [] | Some sts \<Rightarrow> sts)
                     | _ \<Rightarrow> [])))"

fun is_filled :: "order_status \<Rightarrow> bool" where
  "is_filled (Filled fd) = True"
| "is_filled other = False"

text \<open>The reply confirms a fill: one of its statuses is \<^verbatim>\<open>filled\<close>.\<close>

definition fill_confirmed :: "http_reply \<Rightarrow> bool" where
  "fill_confirmed reply = list_ex is_filled (reply_statuses reply)"



section \<open>The order book hunter (\<^verbatim>\<open>order_book_hunter.py\<close>)\<close>

definition asset_index :: nat where
  "asset_index = 5"

definition base_position_usd :: pyfloat where
  "base_position_usd = 300"

definition max_position_usd :: pyfloat where
  "max_position_usd = 500"

definition tp_percentage :: pyfloat where
  "tp_percentage = float_lit 25 100"

definition sl_percentage :: pyfloat where
  "sl_percentage = float_lit 10 100"

text \<open>The keys of a snapshot that \<^verbatim>\<open>enter_position\<close> reads.\<close>

record snapshot =
  imbalance_ratio :: pyfloat
  best_bid :: pyfloat
  best_ask :: pyfloat

text \<open>Sequencing of computations that can raise.\<close>

definition bind_result :: "'e + 'a \<Rightarrow> ('a \<Rightarrow> 'e + 'b) \<Rightarrow> 'e + 'b" where
  "bind_result m f = (case m of Inl e \<Rightarrow> Inl e | Inr x \<Rightarrow> f x)"

text \<open>\<^verbatim>\<open>result.get('response', {}).get('data', {}).get('statuses', [])\<close>: a string
  under \<^verbatim>\<open>response\<close> has no \<^verbatim>\<open>get\<close>.\<close>

definition get_statuses :: "api_result \<Rightarrow> py_error + order_status list" where
  "get_statuses res =
     (case response res of
        None \<Rightarrow> Inr []
      | Some (ResponseText txt) \<Rightarrow> Inl AttributeError
      | Some (ResponseObj None) \<Rightarrow> Inr []
      | Some (ResponseObj (Some d)) \<Rightarrow> (case statuses d of None \<Rightarrow> Inr [] | Some sts \<Rightarrow> Inr sts))"

text \<open>What the two posting methods share: nonce, signature, payload, post. Exceptions
  of signing, of the transport and of \<^verbatim>\<open>response.json()\<close> propagate; a status code
  other than 200 gives \<^verbatim>\<open>{"status": "error", "error": ...}\<close>.\<close>

definition post_action ::
  "signer \<Rightarrow> action \<Rightarrow> post_io \<Rightarrow> (py_error + api_result) \<times> event list" where
  "post_action sign act io =
     (case io of (now, reply) \<Rightarrow>
        (let nonce = nonce_of_clock now in
         case sign act None nonce True of
           Inl e \<Rightarrow> (Inl e, [])
         | Inr sg \<Rightarrow>
             (let sent = [Post \<lparr>pl_action = act, pl_nonce = nonce, pl_signature = sg,
                                 pl_vaultAddress = None\<rparr>] in
              case reply of
                ConnectionError \<Rightarrow> (Inl NetworkError, sent)
              | HttpReply code body \<Rightarrow>
                  if code = 200
                  then (case body of None \<Rightarrow> (Inl ValueError, sent) | Some res \<Rightarrow> (Inr res, sent))
                  else (Inr \<lparr>status = Some ''error'', response = None\<rparr>, sent))))"


text \<open>\<^verbatim>\<open>place_grouped_order(orders)\<close>: on status \<^verbatim>\<open>ok\<close> the statuses are looked up
  for printing, which can raise.\<close>

definition place_grouped_order ::
  "signer \<Rightarrow> order list \<Rightarrow> post_io \<Rightarrow> (py_error + api_result) \<times> event list" where
  "place_grouped_order sign orders io =
     (case post_action sign (OrderAction orders NormalTpsl) io of
        (Inl e, sent) \<Rightarrow> (Inl e, sent)
      | (Inr res, sent) \<Rightarrow>
          if status res = Some ''ok''
          then (case get_statuses res of Inl e \<Rightarrow> (Inl e, sent) | Inr sts \<Rightarrow> (Inr res, sent))
          else (Inr res, sent))"

text \<open>The sizing, the prices and the three orders of \<^verbatim>\<open>enter_position\<close>, with the
  entry price; \<^verbatim>\<open>round_float\<close> and the division can raise.\<close>

definition build_orders :: "direction \<Rightarrow> snapshot \<Rightarrow> py_error + order list \<times> pyfloat" where
  "build_orders direction snap =
     (let imbalance_strength = \<bar>fsub (imbalance_ratio snap) 1\<bar>;
          size_multiplier = min (round_double (imbalance_strength / 2)) (float_lit 167 100);
          usd = min (fmul base_position_usd size_multiplier) max_position_usd;
          buy = (direction = Long);
          entry_px = (if buy then best_ask snap else best_bid snap);
          tp_frac = round_double (tp_percentage / 100);
          sl_frac = round_double (sl_percentage / 100);
          tp_price = (if buy then py_round (fmul entry_px (fadd 1 tp_frac)) 2
                      else py_round (fmul entry_px (fsub 1 tp_frac)) 2);
          sl_price = (if buy then py_round (fmul entry_px (fsub 1 sl_frac)) 2
                      else py_round (fmul entry_px (fadd 1 sl_frac)) 2)
      in bind_result (fdiv usd entry_px) (\<lambda>q.
         bind_result (round_float (fadd entry_px (if buy then float_lit 10 100 else - float_lit 10 100))) (\<lambda>p0.
         bind_result (round_float (py_round q 2)) (\<lambda>s0.
         bind_result (round_float (if buy then fadd sl_price 1 else fsub sl_price 1)) (\<lambda>p1.
         bind_result (round_float sl_price) (\<lambda>t1.
         bind_result (round_float tp_price) (\<lambda>p2.
           Inr ([Order asset_index buy p0 s0 False (Limit Ioc),
                 Order asset_index (\<not> buy) p1 s0 True (Trigger True t1 Sl),
                 Order asset_index (\<not> buy) p2 s0 True (Trigger True p2 Tp)],
                entry_px))))))))"

text \<open>
  \<^verbatim>\<open>if statuses and len(statuses) >= 1:
      main_status = statuses[0]
      if 'filled' in main_status:
          self.entry_order_data = main_status
          self.position_size = float(main_status['filled']['totalSz'])
          self.position_direction = direction\<close>:
  \<open>Inr\<close> when the block completes, \<open>Inl\<close> with the state reached when the lookup
  raises after the first assignment.
\<close>

definition store_main_status ::
  "order_status bot_state \<Rightarrow> direction \<Rightarrow> order_status list
     \<Rightarrow> order_status bot_state + order_status bot_state" where
  "store_main_status st direction sts =
     (case sts of
        [] \<Rightarrow> Inr st
      | main_status # rest \<Rightarrow>
          (case main_status of
             Filled fd \<Rightarrow>
               (case totalSz fd of
                  None \<Rightarrow> Inl (st\<lparr>entry_order_data := Some main_status\<rparr>)
                | Some z \<Rightarrow>
                    Inr (st\<lparr>entry_order_data := Some main_status, position_size := Some z,
                            position_direction := Some direction\<rparr>))
           | StatusText txt \<Rightarrow>
               if contains ''filled'' txt then Inl (st\<lparr>entry_order_data := Some main_status\<rparr>)
               else Inr st
           | other \<Rightarrow> Inr st))"

text \<open>\<^verbatim>\<open>enter_position(direction, snapshot)\<close>; \<open>now2\<close> is the clock reading taken for
  \<^verbatim>\<open>entry_time\<close>. Exceptions are caught and printed.\<close>

definition enter_position ::
  "signer \<Rightarrow> order_status bot_state \<Rightarrow> direction \<Rightarrow> snapshot \<Rightarrow> post_io \<Rightarrow> pyfloat
     \<Rightarrow> order_status bot_state \<times> event list" where
  "enter_position sign st direction snap io now2 =
     (case build_orders direction snap of
        Inl e \<Rightarrow> (st, [])
      | Inr (orders, entry_px) \<Rightarrow>
          (case place_grouped_order sign orders io of
             (Inl e, sent) \<Rightarrow> (st, sent)
           | (Inr order_result, sent) \<Rightarrow>
               if status order_result = Some ''ok'' then
                 (case get_statuses order_result of
                    Inl e \<Rightarrow> (st, sent)
                  | Inr sts \<Rightarrow>
                      (case sts of
                         ErrorStatus msg # rest \<Rightarrow> (st, sent)
                       | other \<Rightarrow>
                           (case store_main_status st direction sts of
                              Inl st1 \<Rightarrow> (st1, sent)
                            | Inr st1 \<Rightarrow>
                                (st1\<lparr>position_open := True, entry_time := Some now2,
                                     entry_price := Some entry_px\<rparr>, sent))))
               else (st, sent)))"






section \<open>The scalping bot (\<^verbatim>\<open>ultimate_scalping_bot.py\<close>)\<close>

text \<open>What \<^verbatim>\<open>place_grouped_order\<close> returns: the order id of a resting entry,
  \<^verbatim>\<open>True\<close> or \<^verbatim>\<open>False\<close>.\<close>

datatype grouped_result = OrderId nat | ResultTrue | ResultFalse

definition scalping_orders ::
  "pyfloat \<Rightarrow> pyfloat \<Rightarrow> pyfloat \<Rightarrow> pyfloat \<Rightarrow> py_error + order list" where
  "scalping_orders entry_px psize tp_price sl_price =
     bind_result (round_float entry_px) (\<lambda>p0.
     bind_result (round_float psize) (\<lambda>s0.
     bind_result (round_float (fsub sl_price 1)) (\<lambda>p1.
     bind_result (round_float sl_price) (\<lambda>t1.
     bind_result (round_float tp_price) (\<lambda>p2.
       Inr [Order asset_index True p0 s0 False (Limit Gtc),
            Order asset_index False p1 s0 True (Trigger True t1 Sl),
            Order asset_index False p2 s0 True (Trigger True p2 Tp)])))))"

text \<open>\<^verbatim>\<open>place_grouped_order(entry_price, position_size, tp_price, sl_price)\<close>: building
  and signing are outside the \<^verbatim>\<open>try\<close> block, so their exceptions propagate.\<close>

definition scalping_place_grouped_order ::
  "signer \<Rightarrow> pyfloat \<Rightarrow> pyfloat \<Rightarrow> pyfloat \<Rightarrow> pyfloat \<Rightarrow> post_io
     \<Rightarrow> (py_error + grouped_result) \<times> event list" where
  "scalping_place_grouped_order sign entry_px psize tp_price sl_price io =
     (case scalping_orders entry_px psize tp_price sl_price of
        Inl e \<Rightarrow> (Inl e, [])
      | Inr orders \<Rightarrow>
          (let act = OrderAction orders NormalTpsl; nonce = nonce_of_clock (fst io) in
           case sign act None nonce True of
             Inl e \<Rightarrow> (Inl e, [])
           | Inr sg \<Rightarrow>
               (let sent = [Post \<lparr>pl_action = act, pl_nonce = nonce, pl_signature = sg,
                                   pl_vaultAddress = None\<rparr>] in
                case snd io of
                  ConnectionError \<Rightarrow> (Inr ResultFalse, sent)
                | HttpReply code body \<Rightarrow>
                    if code = 200 then
                      (case body of
                         None \<Rightarrow> (Inr ResultFalse, sent)
                       | Some res \<Rightarrow>
                           if status res = Some ''ok'' then
                             (case get_statuses res of
                                Inl e \<Rightarrow> (Inr ResultFalse, sent)
                              | Inr sts \<Rightarrow>
                                  (case sts of
                                     Resting order_id # rest \<Rightarrow> (Inr (OrderId order_id), sent)
                                   | other \<Rightarrow> (Inr ResultTrue, sent)))
                           else (Inr ResultFalse, sent))
                    else (Inr ResultFalse, sent))))"

section \<open>Sample data\<close>

text \<open>A signer that always succeeds, a long position of 25 SOL as \<open>enter_position\<close>
  records it, and two replies of the exchange: one with a resting order, one with a
  fill.\<close>

definition sample_signer :: signer where
  "sample_signer act vault nonce is_mainnet = Inr \<lparr>sig_r = ''0x1'', sig_s = ''0x2'', sig_v = 27\<rparr>"

definition sample_fill :: filled_data where
  "sample_fill = \<lparr>oid = Some 7, totalSz = Some 25, avgPx = Some 160\<rparr>"

definition sample_long :: "filled_data bot_state" where
  "sample_long =
     \<lparr>position_open = True, position_direction = Some Long, position_size = Some 25,
      entry_order_data = Some sample_fill, current_position = Some Long,
      entry_time = None, entry_price = None, current_signal = Some LONG,
      last_signal_time = 0\<rparr>"

definition ok_reply :: "order_status list \<Rightarrow> http_reply" where
  "ok_reply sts =
     HttpReply 200
       (Some \<lparr>status = Some ''ok'',
              response = Some (ResponseObj (Some \<lparr>statuses = Some sts\<rparr>))\<rparr>)"


text \<open>A snapshot with a bullish imbalance, and three states of the order book hunter:
  no position, a long position whose entry fill is recorded, and a position marked open
  whose entry order gave no fill (what \<^verbatim>\<open>enter_position\<close> leaves then).\<close>

definition sample_snapshot :: snapshot where
  "sample_snapshot = \<lparr>imbalance_ratio = 4, best_bid = 255 / 2, best_ask = 128\<rparr>"

definition hunter_flat :: "order_status bot_state" where
  "hunter_flat =
     \<lparr>position_open = False, position_direction = None, position_size = None,
      entry_order_data = None, current_position = None,
      entry_time = None, entry_price = None, current_signal = None,
      last_signal_time = 0\<rparr>"


definition hunter_unfilled :: "order_status bot_state" where
  "hunter_unfilled =
     \<lparr>position_open = True, position_direction = None, position_size = None,
      entry_order_data = None, current_position = None,
      entry_time = Some 1700000000, entry_price = Some 128, current_signal = None,
      last_signal_time = 0\<rparr>"

text \<open>The fill of the entry order that the hunter sends on the sample snapshot.\<close>

definition hunter_fill :: filled_data where
  "hunter_fill = \<lparr>oid = Some 9, totalSz = Some (float_lit 352 100), avgPx = Some 128\<rparr>"

text \<open>The entry, stop-loss and take-profit orders of a long entry at 128.\<close>

definition sample_orders :: "order list" where
  "sample_orders =
     [Order 5 True ''128.1'' ''3.52'' False (Limit Ioc),
      Order 5 False ''128.87'' ''3.52'' True (Trigger True ''127.87'' Sl),
      Order 5 False ''128.32'' ''3.52'' True (Trigger True ''128.32'' Tp)]"

text \<open>The color trader with no position.\<close>

definition trader_flat :: "filled_data bot_state" where
  "trader_flat =
     \<lparr>position_open = False, position_direction = None, position_size = None,
      entry_order_data = None, current_position = None,
      entry_time = None, entry_price = None, current_signal = None,
      last_signal_time = 0\<rparr>"

section \<open>Properties of the byte layer\<close>

lemma be_value_snoc: "be_value (bs @ [b]) = 256 * be_value bs + uint b"
  by (simp add: be_value_def)

lemma length_be_digits: "length (be_digits n k) = k"
  by (induction n k rule: be_digits.induct) simp_all

lemma uint_byte_of_int: "uint (word_of_int n :: byte) = n mod 256"
  by (simp add: uint_word_of_int)

lemma be_value_be_digits: "be_value (be_digits n k) = n mod 256 ^ k"
proof (induction n k rule: be_digits.induct)
  case (1 n)
  then show ?case by (simp add: be_value_def)
next
  case (2 n k)
  have "256 * ((n div 256) mod 256 ^ k) + n mod 256 = n mod (256 * 256 ^ k)"
    by (simp add: zmod_zmult2_eq)
  with 2 show ?case
    by (simp add: be_value_snoc uint_byte_of_int)
qed

lemma to_bytes_in_range:
  assumes "0 \<le> n" and "n < 256 ^ len"
  shows "\<exists>bs. to_bytes n len = Inr bs \<and> length bs = len \<and> be_value bs = n"
  using assms by (simp add: to_bytes_def length_be_digits be_value_be_digits)

lemma hex_digit_not_space: "hex_digit_val c = Some h \<Longrightarrow> \<not> is_space c"
  by (auto simp: hex_digit_val_def is_space_def Let_def split: if_splits)

lemma fromhex_is_hex_of: "is_hex_of s bs \<Longrightarrow> fromhex s = Some bs"
proof (induction s bs rule: is_hex_of.induct)
  case 1
  then show ?case by simp
next
  case (2 c d cs b bs)
  then show ?case
    by (auto split: option.splits dest: hex_digit_not_space)
qed simp_all

lemma is_hex_of_no_prefix: "is_hex_of v a \<Longrightarrow> removeprefix ''0x'' v = v"
proof (cases v)
  case Nil
  then show ?thesis by (simp add: removeprefix_def)
next
  case (Cons c cs)
  assume h: "is_hex_of v a"
  show ?thesis
  proof (cases cs)
    case Nil
    with Cons show ?thesis by (simp add: removeprefix_def)
  next
    case (Cons d ds)
    with \<open>v = c # cs\<close> h obtain l where "hex_digit_val d = Some l"
      by (cases a) (auto split: option.splits)
    then have "d \<noteq> CHR ''x''"
      by (auto simp: hex_digit_val_def Let_def split: if_splits)
    with Cons \<open>v = c # cs\<close> show ?thesis by (simp add: removeprefix_def)
  qed
qed

lemma vault_denotes_fromhex:
  assumes "vault_denotes (Some v) (Some a)"
  shows "fromhex (removeprefix ''0x'' v) = Some a"
proof -
  from assms consider "is_hex_of v a" | "is_hex_of (removeprefix ''0x'' v) a"
    by (auto simp: vault_denotes_def)
  then show ?thesis
  proof cases
    case 1
    then show ?thesis
      using is_hex_of_no_prefix [OF 1] by (simp add: fromhex_is_hex_of)
  next
    case 2
    then show ?thesis by (rule fromhex_is_hex_of)
  qed
qed

section \<open>The hash layout\<close>

text \<open>
  Claim C1. For a nonce that fits 8 bytes and a vault that is absent or a 20-byte
  address in hexadecimal, \<open>hash_action\<close> returns the Keccak hash of the packed action,
  followed by the 8 big-endian bytes of the nonce, followed by \<open>0x00\<close> (no vault) or
  \<open>0x01\<close> and the 20 address bytes.
\<close>

theorem hash_action_layout:
  assumes "0 \<le> nonce" and "nonce < 2 ^ 64" and "vault_denotes vault addr"
  shows "\<exists>nb. length nb = 8 \<and> be_value nb = nonce \<and>
           hash_action packb keccak action vault nonce =
             Inr (keccak (packb action @ nb @ vault_suffix addr))"
proof -
  from assms(1,2) obtain nb
    where nb: "to_bytes nonce 8 = Inr nb" "length nb = 8" "be_value nb = nonce"
    using to_bytes_in_range [of nonce 8] by auto
  show ?thesis
  proof (cases vault)
    case None
    with assms(3) have "addr = None"
      by (cases addr) (simp_all add: vault_denotes_def)
    with None nb show ?thesis
      by (auto simp: hash_action_def vault_suffix_def)
  next
    case (Some v)
    with assms(3) obtain a where a: "addr = Some a"
      by (cases addr) (simp_all add: vault_denotes_def)
    with Some assms(3) have "fromhex (removeprefix ''0x'' v) = Some a"
      by (simp add: vault_denotes_fromhex)
    with Some a nb show ?thesis
      by (auto simp: hash_action_def vault_suffix_def)
  qed
qed

theorem hash_action_layout_witness:
  "vault_denotes (Some ''0x1111111111111111111111111111111111111111'') (Some (replicate 20 0x11)) \<and>
   (\<exists>nb. length nb = 8 \<and> be_value nb = 1700000000000 \<and>
      hash_action (\<lambda>a. a) (\<lambda>d. d) [0x81]
          (Some ''0x1111111111111111111111111111111111111111'') 1700000000000 =
        Inr ([0x81] @ nb @ vault_suffix (Some (replicate 20 0x11))))"
proof -
  have v: "vault_denotes (Some ''0x1111111111111111111111111111111111111111'')
             (Some (replicate 20 0x11))"
    by (simp add: vault_denotes_def removeprefix_def hex_digit_val_def numeral_eq_Suc)
  have "\<exists>nb. length nb = 8 \<and> be_value nb = 1700000000000 \<and>
      hash_action (\<lambda>a. a) (\<lambda>d. d) [0x81]
          (Some ''0x1111111111111111111111111111111111111111'') 1700000000000 =
        Inr ((\<lambda>d. d) ((\<lambda>a. a) [0x81] @ nb @ vault_suffix (Some (replicate 20 0x11))))"
    by (rule hash_action_layout [OF _ _ v]) simp_all
  with v show ?thesis by simp
qed

section \<open>The typed data that is signed\<close>

lemma hex_digits_roundtrip: "\<forall>d \<in> set [0..<16]. hex_digit_val (hex_char d) = Some d"
  by (simp add: upt_rec hex_char_def hex_digit_val_def)

lemma hex_digit_val_hex_char: "d < 16 \<Longrightarrow> hex_digit_val (hex_char d) = Some d"
  using hex_digits_roundtrip by simp

lemma byte_from_nibbles: "(of_nat (16 * (unat b div 16) + unat b mod 16) :: byte) = b"
  by simp

lemma is_hex_of_hex_of_bytes: "is_hex_of (concat (map hex_of_byte bs)) bs"
proof (induction bs)
  case Nil
  show ?case by simp
next
  case (Cons b bs)
  have "unat b < 256"
    using unsigned_less [of b, where ?'a = nat] by simp
  then have "unat b div 16 < 16"
    by simp
  with Cons show ?case
    by (simp add: hex_of_byte_def hex_digit_val_hex_char byte_from_nibbles)
qed

lemma removeprefix_append: "removeprefix p (p @ t) = t"
  by (simp add: removeprefix_def)

lemma connection_bytes_to_hex: "connection_bytes (ConnHex (to_hex_bytes h)) = Some h"
  by (simp add: connection_bytes_def to_hex_bytes_def removeprefix_append
        fromhex_is_hex_of is_hex_of_hex_of_bytes del: append.simps)

text \<open>
  Claim C2. Whenever \<open>hash_action\<close> returns a hash \<open>h\<close> (32 bytes, as Keccak-256
  produces), \<open>sign_action\<close> of each bot signs a typed-data structure with the fixed
  domain (chain id 1337, name Exchange, zero verifying contract, version 1), the Agent
  type with fields source and connectionId, primary type Agent, the one-character
  source marker \<open>a\<close> (mainnet) or \<open>b\<close> (testnet) and \<open>h\<close> as connection id, and
  returns the signature as the three fields r, s (hexadecimal) and v.
\<close>

theorem sign_action_typed_data:
  assumes "hash_action packb keccak action vault nonce = Inr h"
    and "\<And>x. length (keccak x) = 32"
  shows "length h = 32 \<and>
    (\<exists>d. agent_typed_data is_mainnet h d \<and>
         sign_action packb keccak sign_message action vault nonce is_mainnet
           = Inr (sign_inner sign_message d)) \<and>
    (\<exists>d. agent_typed_data is_mainnet h d \<and>
         ct_sign_action packb keccak sign_message action vault nonce is_mainnet
           = Inr (sign_inner sign_message d)) \<and>
    (\<forall>d. sign_inner sign_message d =
         \<lparr>sig_r = to_hex_int (signed_r (sign_message d)),
          sig_s = to_hex_int (signed_s (sign_message d)),
          sig_v = signed_v (sign_message d)\<rparr>)"
proof (intro conjI)
  from assms show "length h = 32"
    by (auto simp: hash_action_def Let_def split: sum.splits option.splits)
next
  let ?d = "\<lparr>domain = exchange_domain, types = agent_types, primaryType = ''Agent'',
             message = \<lparr>source = (if is_mainnet then ''a'' else ''b''), connectionId = ConnBytes h\<rparr>\<rparr>"
  have "agent_typed_data is_mainnet h ?d"
    by (simp add: agent_typed_data_def exchange_domain_def agent_types_def connection_bytes_def
          numeral_eq_Suc)
  moreover have "sign_action packb keccak sign_message action vault nonce is_mainnet
      = Inr (sign_inner sign_message ?d)"
    using assms(1) by (simp add: sign_action_def)
  ultimately show "\<exists>d. agent_typed_data is_mainnet h d \<and>
         sign_action packb keccak sign_message action vault nonce is_mainnet
           = Inr (sign_inner sign_message d)"
    by blast
next
  let ?d = "\<lparr>domain = exchange_domain, types = agent_types, primaryType = ''Agent'',
             message = \<lparr>source = (if is_mainnet then ''a'' else ''b''),
                        connectionId = ConnHex (to_hex_bytes h)\<rparr>\<rparr>"
  have "agent_typed_data is_mainnet h ?d"
    by (simp add: agent_typed_data_def exchange_domain_def agent_types_def
          connection_bytes_to_hex numeral_eq_Suc)
  moreover have "ct_sign_action packb keccak sign_message action vault nonce is_mainnet
      = Inr (sign_inner sign_message ?d)"
    using assms(1) by (simp add: ct_sign_action_def)
  ultimately show "\<exists>d. agent_typed_data is_mainnet h d \<and>
         ct_sign_action packb keccak sign_message action vault nonce is_mainnet
           = Inr (sign_inner sign_message d)"
    by blast
next
  show "\<forall>d. sign_inner sign_message d =
         \<lparr>sig_r = to_hex_int (signed_r (sign_message d)),
          sig_s = to_hex_int (signed_s (sign_message d)),
          sig_v = signed_v (sign_message d)\<rparr>"
    by (simp add: sign_inner_def Let_def)
qed

theorem sign_action_typed_data_witness:
  "hash_action (\<lambda>a. a) (\<lambda>x. replicate 32 0) [0x81] None 1700000000000 = Inr (replicate 32 0) \<and>
   length (replicate 32 (0 :: byte)) = 32 \<and>
   (\<exists>d. agent_typed_data True (replicate 32 0) d \<and>
        sign_action (\<lambda>a. a) (\<lambda>x. replicate 32 0)
            (\<lambda>d. \<lparr>signed_r = 255, signed_s = 16, signed_v = 27\<rparr>) [0x81] None 1700000000000 True
          = Inr (sign_inner (\<lambda>d. \<lparr>signed_r = 255, signed_s = 16, signed_v = 27\<rparr>) d)) \<and>
   (\<exists>d. agent_typed_data True (replicate 32 0) d \<and>
        ct_sign_action (\<lambda>a. a) (\<lambda>x. replicate 32 0)
            (\<lambda>d. \<lparr>signed_r = 255, signed_s = 16, signed_v = 27\<rparr>) [0x81] None 1700000000000 True
          = Inr (sign_inner (\<lambda>d. \<lparr>signed_r = 255, signed_s = 16, signed_v = 27\<rparr>) d)) \<and>
   (\<forall>d. sign_inner (\<lambda>d. \<lparr>signed_r = 255, signed_s = 16, signed_v = 27\<rparr>) d =
        \<lparr>sig_r = ''0xff'', sig_s = ''0x10'', sig_v = 27\<rparr>)"
proof -
  have h: "hash_action (\<lambda>a. a) (\<lambda>x. replicate 32 0) [0x81 :: byte] None 1700000000000
             = Inr (replicate 32 0)"
    by (simp add: hash_action_def to_bytes_def)
  have k: "\<And>x :: byte list. length ((\<lambda>x. replicate 32 (0 :: byte)) x) = 32"
    by simp
  have x: "to_hex_int 255 = ''0xff''" "to_hex_int 16 = ''0x10''"
    by (simp_all add: to_hex_int_def hex_char_def)
  note t = sign_action_typed_data [OF h k, where is_mainnet = True
      and sign_message = "\<lambda>d. \<lparr>signed_r = 255, signed_s = 16, signed_v = 27\<rparr>"]
  show ?thesis
  proof (intro conjI)
    show "hash_action (\<lambda>a. a) (\<lambda>x. replicate 32 0) [0x81 :: byte] None 1700000000000
            = Inr (replicate 32 0)"
      by (rule h)
    show "length (replicate 32 (0 :: byte)) = 32"
      by simp
    show "\<exists>d. agent_typed_data True (replicate 32 0) d \<and>
        sign_action (\<lambda>a. a) (\<lambda>x. replicate 32 0)
            (\<lambda>d. \<lparr>signed_r = 255, signed_s = 16, signed_v = 27\<rparr>) [0x81] None 1700000000000 True
          = Inr (sign_inner (\<lambda>d. \<lparr>signed_r = 255, signed_s = 16, signed_v = 27\<rparr>) d)"
      using t by blast
    show "\<exists>d. agent_typed_data True (replicate 32 0) d \<and>
        ct_sign_action (\<lambda>a. a) (\<lambda>x. replicate 32 0)
            (\<lambda>d. \<lparr>signed_r = 255, signed_s = 16, signed_v = 27\<rparr>) [0x81] None 1700000000000 True
          = Inr (sign_inner (\<lambda>d. \<lparr>signed_r = 255, signed_s = 16, signed_v = 27\<rparr>) d)"
      using t by blast
    show "\<forall>d. sign_inner (\<lambda>d. \<lparr>signed_r = 255, signed_s = 16, signed_v = 27\<rparr>) d =
        \<lparr>sig_r = ''0xff'', sig_s = ''0x10'', sig_v = 27\<rparr>"
      by (simp add: sign_inner_def x)
  qed
qed

section \<open>The color trader: closing, entering and flipping\<close>

lemma first_filled_is_filled: "first_filled sts = Inr (Some fd) \<Longrightarrow> list_ex is_filled sts"
  by (induction sts rule: first_filled.induct) (auto split: if_splits)

lemma ct_place_order_raw_cases:
  "ct_place_order_raw sign act io = (res, sent) \<Longrightarrow>
     (sent = [] \<and> res = None) \<or>
     (\<exists>pl. sent = [Post pl] \<and> pl_action pl = act \<and> pl_nonce pl = nonce_of_clock (fst io) \<and>
        pl_vaultAddress pl = None \<and> sign act None (nonce_of_clock (fst io)) True = Inr (pl_signature pl))"
  by (cases io) (auto simp: ct_place_order_raw_def Let_def split: sum.splits http_reply.splits option.splits if_splits)

lemma ct_statuses_reply:
  "ct_place_order_raw sign act io = (res, sent) \<Longrightarrow> ct_statuses res = Inr (Some sts) \<Longrightarrow>
     sts = reply_statuses (snd io) \<and> sent \<noteq> []"
  by (cases io) (auto simp: ct_place_order_raw_def ct_statuses_def reply_statuses_def Let_def
      split: sum.splits http_reply.splits option.splits if_splits api_response.splits)

lemma ct_finally_open: "position_open st \<Longrightarrow> ct_finally st = st"
  by (simp add: ct_finally_def)

lemma ct_ensure_size_frame:
  "ct_ensure_size st p = Inr st1 \<Longrightarrow>
     position_open st1 = position_open st \<and> position_direction st1 = position_direction st \<and>
     entry_order_data st1 = entry_order_data st \<and> current_position st1 = current_position st \<and>
     (\<forall>z. position_size st = Some z \<and> z \<noteq> 0 \<longrightarrow> st1 = st)"
  by (auto simp: ct_ensure_size_def split: if_splits sum.splits)

lemma ct_close_action_not_entry: "\<not> is_entry_action (ct_close_action held p z)"
  by (simp add: ct_close_action_def Let_def)


text \<open>What a close attempt on an open position can do.\<close>

lemma ct_close_position_open:
  assumes op: "position_open st"
    and run: "ct_close_position sign st price io = (st', ok, sent)"
  shows "(sent = [] \<or> (\<exists>pl held p st1. sent = [Post pl] \<and> position_direction st = Some held \<and>
             price = Some p \<and> ct_ensure_size st p = Inr st1 \<and>
             pl_action pl = ct_close_action held p (the (position_size st1)))) \<and>
         (ok \<longrightarrow> fill_confirmed (snd io) \<and> \<not> position_open st' \<and> sent \<noteq> []) \<and>
         (\<not> ok \<longrightarrow> position_open st' \<and> position_direction st' = position_direction st \<and>
             entry_order_data st' = entry_order_data st \<and>
             current_position st' = current_position st)"
proof (cases "position_direction st")
  case None
  with op run show ?thesis
    by (auto simp: ct_close_position_def ct_finally_open)
next
  case (Some held)
  show ?thesis
  proof (cases price)
    case None
    with op run Some show ?thesis
      by (auto simp: ct_close_position_def ct_finally_open)
  next
    case (Some p)
    note pr = Some
    show ?thesis
    proof (cases "ct_ensure_size st p")
      case (Inl e)
      with op run \<open>position_direction st = Some held\<close> pr show ?thesis
        by (auto simp: ct_close_position_def ct_finally_open)
    next
      case (Inr st1)
      note fr = ct_ensure_size_frame [OF Inr]
      obtain res snt where po: "ct_place_order_raw sign
          (ct_close_action held p (the (position_size st1))) io = (res, snt)"
        by (cases "ct_place_order_raw sign (ct_close_action held p (the (position_size st1))) io")
      note pc = ct_place_order_raw_cases [OF po]
      have op1: "position_open st1" using fr op by simp
      show ?thesis
      proof (cases "ct_statuses res")
        case (Inl e)
        with op run \<open>position_direction st = Some held\<close> pr Inr po pc fr op1 show ?thesis
          by (auto simp: ct_close_position_def ct_finally_open Let_def)
      next
        case stt: (Inr so)
        show ?thesis
        proof (cases so)
          case None
          with stt op run \<open>position_direction st = Some held\<close> pr Inr po pc fr op1 show ?thesis
            by (auto simp: ct_close_position_def ct_finally_open Let_def)
        next
          case (Some sts)
          with stt have s1: "ct_statuses res = Inr (Some sts)" by simp
          note sr = ct_statuses_reply [OF po s1]
          show ?thesis
          proof (cases "first_filled sts")
            case (Inl e)
            with s1 op run \<open>position_direction st = Some held\<close> pr Inr po pc fr op1 show ?thesis
              by (auto simp: ct_close_position_def ct_finally_open Let_def)
          next
            case ff: (Inr fo)
            show ?thesis
            proof (cases fo)
              case None
              with ff s1 op run \<open>position_direction st = Some held\<close> pr Inr po pc fr op1 show ?thesis
                by (auto simp: ct_close_position_def ct_finally_open Let_def)
            next
              case (Some fd)
              with ff have "list_ex is_filled sts" by (simp add: first_filled_is_filled)
              with sr have fc: "fill_confirmed (snd io)" by (simp add: fill_confirmed_def)
              from Some ff s1 op run \<open>position_direction st = Some held\<close> pr Inr po pc fr op1 fc sr
              show ?thesis
                by (auto simp: ct_close_position_def ct_finally_def Let_def)
            qed
          qed
        qed
      qed
    qed
  qed
qed



text \<open>
  Claim C5. While a position is open (with its fill data recorded), a close submission
  whose reply confirms no fill leaves the position in place: \<open>close_position\<close> returns
  \<^verbatim>\<open>False\<close> and keeps \<open>position_open\<close>, the direction, the entry data and
  \<open>current_position\<close>; \<open>flip_position\<close> then returns \<^verbatim>\<open>False\<close> as well and posts no
  entry order for the target side.
\<close>

theorem flip_unfilled_close_keeps_position:
  assumes "position_open st" and "entry_order_data st = Some fd" and "filled_truthy fd"
    and "\<not> fill_confirmed (snd close_io)"
  shows "(case ct_close_position sign st price2 close_io of
            (st', ok, sent) \<Rightarrow>
              \<not> ok \<and> position_open st' \<and> position_direction st' = position_direction st \<and>
              entry_order_data st' = entry_order_data st \<and>
              current_position st' = current_position st) \<and>
         (case ct_flip_position sign st new_direction price1 price2 close_io entry_io of
            (st', ok, sent) \<Rightarrow>
              \<not> ok \<and> position_open st' \<and> position_direction st' = position_direction st \<and>
              entry_order_data st' = entry_order_data st \<and>
              current_position st' = current_position st \<and>
              filter is_entry_action (posted_actions sent) = [])"
proof -
  obtain s1 ok1 snt where c: "ct_close_position sign st price2 close_io = (s1, ok1, snt)"
    by (cases "ct_close_position sign st price2 close_io")
  note cl = ct_close_position_open [OF assms(1) c]
  from cl assms(4) have nok: "\<not> ok1" by blast
  with cl have keep: "position_open s1" "position_direction s1 = position_direction st"
      "entry_order_data s1 = entry_order_data st" "current_position s1 = current_position st"
    by blast+
  from cl have noentry: "filter is_entry_action (posted_actions snt) = []"
    by (auto simp: ct_close_action_not_entry)
  show ?thesis
  proof (cases price1)
    case None
    with c nok keep assms(1) show ?thesis
      by (simp add: ct_flip_position_def)
  next
    case (Some p)
    with c nok keep noentry assms(1,2,3) show ?thesis
      by (simp add: ct_flip_position_def)
  qed
qed


text \<open>
  Claim C8. While a position is held in the direction of the detected signal, a pass of
  the loop posts nothing and leaves the position fields as they are, whatever the
  previous signal was.
\<close>

theorem same_signal_no_transition:
  assumes "position_open st" and "position_direction st = Some (lower sg)"
    and "current_position st = position_direction st"
  shows "case ct_run_step sign st current_time (Some (Some sg)) price1 price2 close_io entry_io of
           (st', sent) \<Rightarrow>
             posted_actions sent = [] \<and> position_open st' = position_open st \<and>
             position_direction st' = position_direction st \<and>
             position_size st' = position_size st \<and>
             entry_order_data st' = entry_order_data st \<and>
             current_position st' = current_position st"
  using assms by (simp add: ct_run_step_def)

section \<open>Sample runs of the color trader\<close>

theorem flip_unfilled_close_keeps_position_witness:
  "\<not> fill_confirmed (snd (1700000000 :: real, ok_reply [Resting 9])) \<and>
   (case ct_close_position sample_signer sample_long (Some 150) (1700000000, ok_reply [Resting 9]) of
      (st', ok, sent) \<Rightarrow>
        \<not> ok \<and> position_open st' \<and> position_direction st' = position_direction sample_long \<and>
        entry_order_data st' = entry_order_data sample_long \<and>
        current_position st' = current_position sample_long) \<and>
   (case ct_flip_position sample_signer sample_long Short (Some 150) (Some 150)
           (1700000000, ok_reply [Resting 9]) (1700000011, ok_reply [Filled sample_fill]) of
      (st', ok, sent) \<Rightarrow>
        \<not> ok \<and> position_open st' \<and> position_direction st' = position_direction sample_long \<and>
        entry_order_data st' = entry_order_data sample_long \<and>
        current_position st' = current_position sample_long \<and>
        filter is_entry_action (posted_actions sent) = [])"
proof -
  have a: "position_open sample_long" "entry_order_data sample_long = Some sample_fill"
      "filled_truthy sample_fill"
    by (simp_all add: sample_long_def sample_fill_def filled_truthy_def)
  have b: "\<not> fill_confirmed (snd (1700000000 :: real, ok_reply [Resting 9]))"
    by (simp add: fill_confirmed_def reply_statuses_def ok_reply_def)
  from b flip_unfilled_close_keeps_position [OF a b, of sample_signer "Some 150" Short "Some 150"
      "(1700000011, ok_reply [Filled sample_fill])"]
  show ?thesis by blast
qed



theorem same_signal_no_transition_witness:
  "case ct_run_step sample_signer sample_long 1700000020 (Some (Some LONG)) (Some 150) (Some 150)
          (1700000020, ok_reply [Filled sample_fill]) (1700000031, ok_reply [Filled sample_fill]) of
     (st', sent) \<Rightarrow>
       posted_actions sent = [] \<and> position_open st' = position_open sample_long \<and>
       position_direction st' = position_direction sample_long \<and>
       position_size st' = position_size sample_long \<and>
       entry_order_data st' = entry_order_data sample_long \<and>
       current_position st' = current_position sample_long"
proof -
  have a: "position_open sample_long" "position_direction sample_long = Some (lower LONG)"
      "current_position sample_long = position_direction sample_long"
    by (simp_all add: sample_long_def)
  show ?thesis by (rule same_signal_no_transition [OF a])
qed

section \<open>Decimal text: digits, formatting and parsing\<close>

declare dec_digits.simps [simp del]

lemma digit_chars_roundtrip: "\<forall>d \<in> set [0..<10]. digit_val (digit_char d) = Some d"
  by (simp add: upt_rec digit_char_def digit_val_def)

lemma digit_val_digit_char: "d < 10 \<Longrightarrow> digit_val (digit_char d) = Some d"
  using digit_chars_roundtrip by simp

lemma digit_val_not_point: "digit_val c = Some d \<Longrightarrow> c \<noteq> CHR ''.'' \<and> c \<noteq> CHR ''-''"
  by (auto simp: digit_val_def Let_def split: if_splits)

lemma digits_value_append:
  "digits_value acc (xs @ ys) =
     (case digits_value acc xs of None \<Rightarrow> None | Some v \<Rightarrow> digits_value v ys)"
  by (induction xs arbitrary: acc) (auto split: option.splits)

lemma dec_digits_all_digits: "c \<in> set (dec_digits n) \<Longrightarrow> \<exists>d. digit_val c = Some d"
proof (induction n rule: dec_digits.induct)
  case (1 n)
  show ?case
  proof (cases "n < 10")
    case True
    with 1(2) show ?thesis
      by (subst (asm) dec_digits.simps) (auto simp: digit_val_digit_char)
  next
    case False
    with 1(2) have "c \<in> set (dec_digits (n div 10)) \<or> c = digit_char (n mod 10)"
      by (subst (asm) dec_digits.simps) auto
    with 1(1) False show ?thesis
      by (auto simp: digit_val_digit_char)
  qed
qed

lemma dec_digits_nonempty: "dec_digits n \<noteq> []"
  by (subst dec_digits.simps) simp

lemma digits_value_dec_digits:
  "digits_value acc (dec_digits n) = Some (acc * 10 ^ length (dec_digits n) + n)"
proof (induction n arbitrary: acc rule: dec_digits.induct)
  case (1 n)
  show ?case
  proof (cases "n < 10")
    case True
    then show ?thesis
      by (subst (1 2) dec_digits.simps) (simp add: digit_val_digit_char)
  next
    case False
    have "digits_value acc (dec_digits n) =
        digits_value acc (dec_digits (n div 10) @ [digit_char (n mod 10)])"
      using False by (subst dec_digits.simps) simp
    also have "\<dots> = Some (10 * (acc * 10 ^ length (dec_digits (n div 10)) + n div 10) + n mod 10)"
      using 1 [OF False] by (simp add: digits_value_append digit_val_digit_char)
    also have "length (dec_digits n) = Suc (length (dec_digits (n div 10)))"
      using False by (subst dec_digits.simps) simp
    then have "10 * (acc * 10 ^ length (dec_digits (n div 10)) + n div 10) + n mod 10 =
        acc * 10 ^ length (dec_digits n) + n"
      by (simp add: algebra_simps)
    finally show ?thesis .
  qed
qed

lemma digits_value_replicate_zero:
  "digits_value acc (replicate k CHR ''0'') = Some (acc * 10 ^ k)"
  by (induction k arbitrary: acc) (simp_all add: digit_val_def)

lemma length_dec_digits_le: "0 < w \<Longrightarrow> n < 10 ^ w \<Longrightarrow> length (dec_digits n) \<le> w"
proof (induction n arbitrary: w rule: dec_digits.induct)
  case (1 n)
  show ?case
  proof (cases "n < 10")
    case True
    with 1(2) show ?thesis by (subst dec_digits.simps) simp
  next
    case False
    with 1(3) have w: "1 < w"
      by (cases "w = 1") (use 1(2) in auto)
    then obtain w' where w': "w = Suc w'" "0 < w'"
      by (cases w) auto
    with 1(3) have "n div 10 < 10 ^ w'"
      by (simp add: less_mult_imp_div_less mult.commute)
    from 1(1) [OF False w'(2) this] w' False show ?thesis
      by (subst dec_digits.simps) simp
  qed
qed

lemma digits_value_zero_pad:
  "digits_value 0 (zero_pad w (dec_digits m)) = Some m"
  by (simp add: zero_pad_def digits_value_append digits_value_replicate_zero digits_value_dec_digits)

lemma length_zero_pad: "0 < w \<Longrightarrow> m < 10 ^ w \<Longrightarrow> length (zero_pad w (dec_digits m)) = w"
  using length_dec_digits_le [of w m] by (simp add: zero_pad_def)


declare strip_zeros.simps [simp del]

lemma round_half_even_nonneg: "0 \<le> q \<Longrightarrow> 0 \<le> round_half_even q"
  by (auto simp: round_half_even_def Let_def)

lemma takeWhile_digits_point:
  assumes "\<And>c. c \<in> set xs \<Longrightarrow> \<exists>d. digit_val c = Some d"
  shows "takeWhile (\<lambda>c. c \<noteq> CHR ''.'') (xs @ CHR ''.'' # ys) = xs"
    and "dropWhile (\<lambda>c. c \<noteq> CHR ''.'') (xs @ CHR ''.'' # ys) = CHR ''.'' # ys"
    and "takeWhile (\<lambda>c. c \<noteq> CHR ''.'') xs = xs"
    and "dropWhile (\<lambda>c. c \<noteq> CHR ''.'') xs = []"
proof -
  have n: "\<And>c. c \<in> set xs \<Longrightarrow> c \<noteq> CHR ''.''"
    using assms digit_val_not_point by blast
  show "takeWhile (\<lambda>c. c \<noteq> CHR ''.'') (xs @ CHR ''.'' # ys) = xs"
    using n by (simp add: takeWhile_append2)
  show "dropWhile (\<lambda>c. c \<noteq> CHR ''.'') (xs @ CHR ''.'' # ys) = CHR ''.'' # ys"
    using n by (simp add: dropWhile_append2)
  show "takeWhile (\<lambda>c. c \<noteq> CHR ''.'') xs = xs"
    using n by (simp add: takeWhile_eq_all_conv)
  show "dropWhile (\<lambda>c. c \<noteq> CHR ''.'') xs = []"
    using n by (simp add: dropWhile_eq_Nil_conv)
qed

lemma digits_value_shift:
  "digits_value acc ys = map_option (\<lambda>v. acc * 10 ^ length ys + v) (digits_value 0 ys)"
proof (induction ys arbitrary: acc)
  case Nil
  show ?case by simp
next
  case (Cons c cs)
  show ?case
  proof (cases "digit_val c")
    case None
    then show ?thesis by simp
  next
    case (Some d)
    have "digits_value acc (c # cs) = digits_value (10 * acc + d) cs"
      using Some by simp
    also have "\<dots> = map_option (\<lambda>v. (10 * acc + d) * 10 ^ length cs + v) (digits_value 0 cs)"
      by (rule Cons.IH)
    also have "\<dots> = map_option (\<lambda>v. acc * 10 ^ length (c # cs) + v) (digits_value 0 (c # cs))"
      using Some Cons.IH [of d]
      by (cases "digits_value 0 cs") (simp_all add: algebra_simps)
    finally show ?thesis .
  qed
qed

text \<open>A numeral with a point: integer digits, a point, fraction digits.\<close>

lemma unsigned_value_point:
  assumes ip: "ip \<noteq> []" "\<And>c. c \<in> set ip \<Longrightarrow> \<exists>d. digit_val c = Some d"
    and vi: "digits_value 0 ip = Some i" and vf: "digits_value 0 fp = Some f"
  shows "unsigned_value (ip @ CHR ''.'' # fp) = Some (of_nat i + of_nat f / 10 ^ length fp)"
  using ip vi vf by (simp add: unsigned_value_def takeWhile_digits_point Let_def)


lemma parse_decimal_signed:
  assumes "body \<noteq> []" "\<exists>d. digit_val (hd body) = Some d"
  shows "parse_decimal ((if neg then ''-'' else '''') @ body) =
           map_option (\<lambda>v. if neg then - v else v) (unsigned_value body)"
proof (cases neg)
  case True
  then show ?thesis
    by (cases "unsigned_value body") (simp_all add: parse_decimal_def)
next
  case False
  from assms obtain c cs where b: "body = c # cs" by (cases body) auto
  with assms(2) have "c \<noteq> CHR ''-''" using digit_val_not_point by auto
  with b False show ?thesis
    by (cases "unsigned_value body") (simp_all add: parse_decimal_def)
qed

lemma split_div_mod_real:
  "0 < d \<Longrightarrow> real (m div 10 ^ d) + real (m mod 10 ^ d) / 10 ^ d = real m / 10 ^ d"
proof -
  have "real m = real (10 ^ d * (m div 10 ^ d) + m mod 10 ^ d)" by simp
  also have "\<dots> = 10 ^ d * real (m div 10 ^ d) + real (m mod 10 ^ d)"
    by (simp only: of_nat_add of_nat_mult of_nat_power of_nat_numeral)
  finally show ?thesis by (simp add: field_simps)
qed

lemma parse_format_fixed:
  assumes d: "0 < d"
  shows "parse_decimal (format_fixed d x) = Some (fixed_value d x)"
proof -
  define m where "m = nat (round_half_even (\<bar>x\<bar> * 10 ^ d))"
  define ip where "ip = dec_digits (m div 10 ^ d)"
  define fp where "fp = zero_pad d (dec_digits (m mod 10 ^ d))"
  have mnn: "0 \<le> round_half_even (\<bar>x\<bar> * 10 ^ d)"
    by (rule round_half_even_nonneg) simp
  have lf: "length fp = d"
    unfolding fp_def using d by (simp add: length_zero_pad)
  have ipne: "ip \<noteq> []" unfolding ip_def by (rule dec_digits_nonempty)
  have ipd: "\<And>c. c \<in> set ip \<Longrightarrow> \<exists>d. digit_val c = Some d"
    unfolding ip_def by (rule dec_digits_all_digits)
  have vi: "digits_value 0 ip = Some (m div 10 ^ d)"
    unfolding ip_def by (simp add: digits_value_dec_digits)
  have vf: "digits_value 0 fp = Some (m mod 10 ^ d)"
    unfolding fp_def by (rule digits_value_zero_pad)
  have uv: "unsigned_value (ip @ CHR ''.'' # fp) = Some (real m / 10 ^ d)"
    using unsigned_value_point [OF ipne ipd vi vf] lf d by (simp add: split_div_mod_real)
  have hd: "\<exists>k. digit_val (hd (ip @ CHR ''.'' # fp)) = Some k"
    using ipne ipd by (cases ip) auto
  have ff: "format_fixed d x = (if x < 0 then ''-'' else '''') @ (ip @ CHR ''.'' # fp)"
    using d by (simp add: format_fixed_def Let_def m_def ip_def fp_def)
  have "parse_decimal (format_fixed d x) =
      map_option (\<lambda>v. if x < 0 then - v else v) (unsigned_value (ip @ CHR ''.'' # fp))"
    unfolding ff by (rule parse_decimal_signed) (use hd in simp_all)
  also have "\<dots> = Some (if x < 0 then - (real m / 10 ^ d) else real m / 10 ^ d)"
    by (simp add: uv)
  also have "real m = of_int (round_half_even (\<bar>x\<bar> * 10 ^ d))"
    using mnn by (simp add: m_def)
  finally show ?thesis
    by (simp add: fixed_value_def)
qed

lemma format_fixed_parts:
  assumes d: "0 < d"
  shows "\<exists>ip fp. format_fixed d x = (if x < 0 then ''-'' else '''') @ (ip @ CHR ''.'' # fp) \<and>
           ip \<noteq> [] \<and> (\<forall>c \<in> set ip. \<exists>k. digit_val c = Some k) \<and> length fp = d \<and>
           digits_value 0 (ip @ fp) = Some (nat (round_half_even (\<bar>x\<bar> * 10 ^ d)))"
proof -
  define m where "m = nat (round_half_even (\<bar>x\<bar> * 10 ^ d))"
  define ip where "ip = dec_digits (m div 10 ^ d)"
  define fp where "fp = zero_pad d (dec_digits (m mod 10 ^ d))"
  have lf: "length fp = d"
    unfolding fp_def using d by (simp add: length_zero_pad)
  have "digits_value 0 (ip @ fp) = Some ((m div 10 ^ d) * 10 ^ d + m mod 10 ^ d)"
    unfolding ip_def
    by (subst digits_value_append, simp add: digits_value_dec_digits,
        subst digits_value_shift, simp add: fp_def [symmetric] lf,
        simp add: fp_def digits_value_zero_pad)
  then have v: "digits_value 0 (ip @ fp) = Some m"
    by (simp only: div_mult_mod_eq)
  have ff: "format_fixed d x = (if x < 0 then ''-'' else '''') @ (ip @ CHR ''.'' # fp)"
    using d by (simp add: format_fixed_def Let_def m_def ip_def fp_def)
  show ?thesis
    using ff v lf dec_digits_nonempty [of "m div 10 ^ d"] dec_digits_all_digits [of _ "m div 10 ^ d"]
    unfolding m_def [symmetric] ip_def [symmetric] by blast
qed

lemma decimal_of_string_format_fixed:
  assumes d: "0 < d"
  shows "decimal_of_string (format_fixed d x) =
           Inr (Decimal (x < 0) (nat (round_half_even (\<bar>x\<bar> * 10 ^ d))) (- int d))"
proof -
  from format_fixed_parts [OF d, of x] obtain ip fp where
    ff: "format_fixed d x = (if x < 0 then ''-'' else '''') @ (ip @ CHR ''.'' # fp)"
    and ip: "ip \<noteq> []" "\<forall>c \<in> set ip. \<exists>k. digit_val c = Some k"
    and lf: "length fp = d"
    and v: "digits_value 0 (ip @ fp) = Some (nat (round_half_even (\<bar>x\<bar> * 10 ^ d)))"
    by blast
  from ip obtain c cs where c: "ip = c # cs" by (cases ip) auto
  with ip(2) have cm: "c \<noteq> CHR ''-''" using digit_val_not_point by auto
  have tw: "takeWhile (\<lambda>c. c \<noteq> CHR ''.'') (ip @ CHR ''.'' # fp) = ip"
    "dropWhile (\<lambda>c. c \<noteq> CHR ''.'') (ip @ CHR ''.'' # fp) = CHR ''.'' # fp"
    using ip(2) by (simp_all add: takeWhile_digits_point)
  show ?thesis
  proof (cases "x < 0")
    case True
    then show ?thesis
      using tw ip v lf by (simp add: ff decimal_of_string_def Let_def)
  next
    case False
    then have "format_fixed d x = c # (cs @ CHR ''.'' # fp)"
      by (simp add: ff c)
    moreover from tw c have "takeWhile (\<lambda>c. c \<noteq> CHR ''.'') (c # (cs @ CHR ''.'' # fp)) = ip"
      "dropWhile (\<lambda>c. c \<noteq> CHR ''.'') (c # (cs @ CHR ''.'' # fp)) = CHR ''.'' # fp"
      by simp_all
    ultimately show ?thesis
      using False cm ip v lf by (simp add: decimal_of_string_def Let_def del: takeWhile.simps dropWhile.simps)
  qed
qed

lemma format_fixed_not_minus_zero: "0 < d \<Longrightarrow> format_fixed d x \<noteq> ''-0''"
proof -
  assume d: "0 < d"
  from format_fixed_parts [OF d, of x] obtain ip fp where
    ff: "format_fixed d x = (if x < 0 then ''-'' else '''') @ (ip @ CHR ''.'' # fp)"
    by blast
  have "CHR ''.'' \<in> set (format_fixed d x)" by (simp add: ff)
  then show ?thesis by auto
qed





lemma round_float_result:
  "round_float x =
     (if float_lit 1 (10 ^ 12) \<le> \<bar>fsub (round_double (fixed_value 8 x)) x\<bar> then Inl ValueError
      else Inr (format_decimal (normalize_decimal
                  (Decimal (x < 0) (nat (round_half_even (\<bar>x\<bar> * 10 ^ 8))) (- 8)))))"
proof -
  have p: "parse_decimal (format_fixed 8 x) = Some (fixed_value 8 x)"
    by (rule parse_format_fixed) simp
  have d: "decimal_of_string (format_fixed 8 x) =
      Inr (Decimal (x < 0) (nat (round_half_even (\<bar>x\<bar> * 10 ^ 8))) (- int 8))"
    by (rule decimal_of_string_format_fixed) simp
  have n: "format_fixed 8 x \<noteq> ''-0''"
    by (rule format_fixed_not_minus_zero) simp
  show ?thesis
    using p d n by (simp add: round_float_def float_of_string_def Let_def)
qed


lemma float_lit_tolerance:
  "float_lit 1 1000000000000 = 4951760157141521 / 4951760157141521099596496896"
  by (simp add: float_lit_def round_double_def binexp_def compute_bitlen round_half_even_def
      power_int_minus Let_def split del: if_split)



section \<open>The formatters on concrete floats\<close>

lemmas float_eval = round_double_def binexp_def compute_bitlen round_half_even_def
  power_int_minus Let_def










section \<open>The exact-precision formatter\<close>




section \<open>The hunter's orders on a sample snapshot\<close>

text \<open>The float operations of \<^verbatim>\<open>enter_position\<close> on the sample snapshot, one at a time.\<close>

lemmas text_eval = normalize_decimal_def strip_zeros.simps format_decimal_def dec_digits.simps
  digit_char_def zero_pad_def

lemmas op_eval = fadd_def fsub_def fmul_def fdiv_def py_round_def float_lit_def float_eval

lemma float_lit_167: "float_lit 167 100 = 940126422213591 / 562949953421312"
  by (simp add: op_eval split del: if_split)
lemma float_lit_25: "float_lit 25 100 = 1 / 4"
  by (simp add: op_eval split del: if_split)
lemma float_lit_10: "float_lit 10 100 = 3602879701896397 / 36028797018963968"
  by (simp add: op_eval split del: if_split)
lemma sample_tp_frac: "round_double (1 / 4 / 100) = 5764607523034235 / 2305843009213693952"
  by (simp add: op_eval split del: if_split)
lemma sample_sl_frac: "round_double (3602879701896397 / 36028797018963968 / 100) =
    1152921504606847 / 1152921504606846976"
  by (simp add: op_eval split del: if_split)
lemma sample_one_plus_tp: "fadd 1 (5764607523034235 / 2305843009213693952) =
    2257429313219461 / 2251799813685248"
  by (simp add: op_eval split del: if_split)
lemma sample_one_minus_sl: "fsub 1 (1152921504606847 / 1152921504606846976) =
    8998192055486251 / 9007199254740992"
  by (simp add: op_eval split del: if_split)
lemma sample_tp_raw: "fmul 128 (2257429313219461 / 2251799813685248) = 2257429313219461 / 17592186044416"
  by (simp add: op_eval split del: if_split)
lemma sample_sl_raw: "fmul 128 (8998192055486251 / 9007199254740992) = 8998192055486251 / 70368744177664"
  by (simp add: op_eval split del: if_split)
lemma sample_tp_px: "py_round (2257429313219461 / 17592186044416) 2 = 2257429313219461 / 17592186044416"
  by (simp add: op_eval split del: if_split)
lemma sample_sl_px: "py_round (8998192055486251 / 70368744177664) 2 = 1124756414749737 / 8796093022208"
  by (simp add: op_eval split del: if_split)
lemma sample_strength: "\<bar>fsub 4 1\<bar> = 3"
  by (simp add: op_eval split del: if_split)
lemma sample_multiplier: "min (round_double (3 / 2)) (940126422213591 / 562949953421312) = 3 / 2"
  by (simp add: op_eval split del: if_split)
lemma sample_usd: "min (fmul 300 (3 / 2)) 500 = 450"
  by (simp add: op_eval split del: if_split)
lemma sample_quotient: "fdiv 450 128 = Inr (225 / 64)"
  by (simp add: op_eval split del: if_split)
lemma sample_size: "py_round (225 / 64) 2 = 7926335344172073 / 2251799813685248"
  by (simp add: op_eval split del: if_split)
lemma sample_entry_px: "fadd 128 (3602879701896397 / 36028797018963968) =
    4507118064579379 / 35184372088832"
  by (simp add: op_eval split del: if_split)
lemma sample_sl_exec: "fadd (1124756414749737 / 8796093022208) 1 = 1133552507771945 / 8796093022208"
  by (simp add: op_eval split del: if_split)

lemma round_float_sample_entry: "round_float (4507118064579379 / 35184372088832) = Inr ''128.1''"
  unfolding round_float_result
  by (simp add: fixed_value_def fsub_def float_eval text_eval float_lit_tolerance split del: if_split)
lemma round_float_sample_size: "round_float (7926335344172073 / 2251799813685248) = Inr ''3.52''"
  unfolding round_float_result
  by (simp add: fixed_value_def fsub_def float_eval text_eval float_lit_tolerance split del: if_split)
lemma round_float_sample_sl_exec: "round_float (1133552507771945 / 8796093022208) = Inr ''128.87''"
  unfolding round_float_result
  by (simp add: fixed_value_def fsub_def float_eval text_eval float_lit_tolerance split del: if_split)
lemma round_float_sample_sl: "round_float (1124756414749737 / 8796093022208) = Inr ''127.87''"
  unfolding round_float_result
  by (simp add: fixed_value_def fsub_def float_eval text_eval float_lit_tolerance split del: if_split)
lemma round_float_sample_tp: "round_float (2257429313219461 / 17592186044416) = Inr ''128.32''"
  unfolding round_float_result
  by (simp add: fixed_value_def fsub_def float_eval text_eval float_lit_tolerance split del: if_split)

text \<open>The three orders that \<^verbatim>\<open>enter_position\<close> builds for a long entry on the sample
  snapshot, and the numbers of a close at 150.50.\<close>

lemma build_orders_sample:
  "build_orders Long sample_snapshot =
     Inr ([Order 5 True ''128.1'' ''3.52'' False (Limit Ioc),
           Order 5 False ''128.87'' ''3.52'' True (Trigger True ''127.87'' Sl),
           Order 5 False ''128.32'' ''3.52'' True (Trigger True ''128.32'' Tp)], 128)"
  unfolding build_orders_def sample_snapshot_def Let_def
  by (simp only: snapshot.simps simp_thms if_True if_False bind_result_def sum.case
        tp_percentage_def sl_percentage_def base_position_usd_def max_position_usd_def
        asset_index_def float_lit_167 float_lit_25 float_lit_10 sample_tp_frac sample_sl_frac
        sample_one_plus_tp sample_one_minus_sl sample_tp_raw sample_sl_raw sample_tp_px
        sample_sl_px sample_strength sample_multiplier sample_usd sample_quotient sample_size
        sample_entry_px sample_sl_exec round_float_sample_entry round_float_sample_size
        round_float_sample_sl_exec round_float_sample_sl round_float_sample_tp)





section \<open>Grouped submissions\<close>

text \<open>What the posting methods and \<^verbatim>\<open>enter_position\<close> do with a reply of status
  \<^verbatim>\<open>ok\<close> that carries statuses.\<close>

lemma post_action_ok_reply:
  "post_action sign act (now, ok_reply sts) =
     (case sign act None (nonce_of_clock now) True of
        Inl e \<Rightarrow> (Inl e, [])
      | Inr sg \<Rightarrow>
          (Inr \<lparr>status = Some ''ok'', response = Some (ResponseObj (Some \<lparr>statuses = Some sts\<rparr>))\<rparr>,
           [Post \<lparr>pl_action = act, pl_nonce = nonce_of_clock now, pl_signature = sg,
                  pl_vaultAddress = None\<rparr>]))"
  by (simp add: post_action_def ok_reply_def Let_def split: sum.splits)

lemma get_statuses_ok:
  "get_statuses \<lparr>status = s, response = Some (ResponseObj (Some \<lparr>statuses = Some sts\<rparr>))\<rparr> = Inr sts"
  by (simp add: get_statuses_def)

lemma place_grouped_order_ok_reply:
  "place_grouped_order sign orders (now, ok_reply sts) =
     post_action sign (OrderAction orders NormalTpsl) (now, ok_reply sts)"
  by (simp add: place_grouped_order_def post_action_ok_reply get_statuses_ok split: sum.splits)

lemma store_main_status_first:
  "store_main_status st d (s0 # rest) = store_main_status st d [s0]"
  by (simp add: store_main_status_def)

lemma enter_position_ok_reply:
  "enter_position sign st d snap (now, ok_reply (s0 # rest)) now2 =
     (case build_orders d snap of
        Inl e \<Rightarrow> (st, [])
      | Inr (orders, px) \<Rightarrow>
          (case sign (OrderAction orders NormalTpsl) None (nonce_of_clock now) True of
             Inl e \<Rightarrow> (st, [])
           | Inr sg \<Rightarrow>
               (let sent = [Post \<lparr>pl_action = OrderAction orders NormalTpsl,
                                   pl_nonce = nonce_of_clock now, pl_signature = sg,
                                   pl_vaultAddress = None\<rparr>] in
                case s0 of
                  ErrorStatus msg \<Rightarrow> (st, sent)
                | other \<Rightarrow>
                    (case store_main_status st d [s0] of
                       Inl st1 \<Rightarrow> (st1, sent)
                     | Inr st1 \<Rightarrow>
                         (st1\<lparr>position_open := True, entry_time := Some now2,
                              entry_price := Some px\<rparr>, sent)))))"
  by (simp add: enter_position_def place_grouped_order_ok_reply post_action_ok_reply
      get_statuses_ok store_main_status_first [of st d s0 rest] Let_def
      split: sum.splits prod.splits order_status.splits)

lemma enter_position_rest_irrelevant:
  "enter_position sign st d snap (now, ok_reply (s0 # rest)) now2 =
   enter_position sign st d snap (now, ok_reply (s0 # rest')) now2"
  by (simp only: enter_position_ok_reply)

lemma scalping_ok_reply:
  "scalping_place_grouped_order sign e p tp sl (now, ok_reply (s0 # rest)) =
     (case scalping_orders e p tp sl of
        Inl err \<Rightarrow> (Inl err, [])
      | Inr orders \<Rightarrow>
          (case sign (OrderAction orders NormalTpsl) None (nonce_of_clock now) True of
             Inl err \<Rightarrow> (Inl err, [])
           | Inr sg \<Rightarrow>
               (Inr (case s0 of Resting order_id \<Rightarrow> OrderId order_id | other \<Rightarrow> ResultTrue),
                [Post \<lparr>pl_action = OrderAction orders NormalTpsl,
                       pl_nonce = nonce_of_clock now, pl_signature = sg,
                       pl_vaultAddress = None\<rparr>])))"
  by (simp add: scalping_place_grouped_order_def ok_reply_def get_statuses_ok Let_def
      split: sum.splits order_status.splits)

lemma scalping_rest_irrelevant:
  "scalping_place_grouped_order sign e p tp sl (now, ok_reply (s0 # rest)) =
   scalping_place_grouped_order sign e p tp sl (now, ok_reply (s0 # rest'))"
  by (simp only: scalping_ok_reply)

lemma enter_position_filled:
  assumes "build_orders d snap = Inr (orders, px)"
    and "sign (OrderAction orders NormalTpsl) None (nonce_of_clock now) True = Inr sg"
    and "totalSz f = Some z"
  shows "enter_position sign st d snap (now, ok_reply (Filled f # rest)) now2 =
     (st\<lparr>entry_order_data := Some (Filled f), position_size := Some z,
         position_direction := Some d, position_open := True, entry_time := Some now2,
         entry_price := Some px\<rparr>,
      [Post \<lparr>pl_action = OrderAction orders NormalTpsl, pl_nonce = nonce_of_clock now,
             pl_signature = sg, pl_vaultAddress = None\<rparr>])"
  using assms by (simp add: enter_position_ok_reply store_main_status_def)

lemma build_orders_sample_orders:
  "build_orders Long sample_snapshot = Inr (sample_orders, 128)"
  by (simp only: build_orders_sample sample_orders_def)

text \<open>
  Claim C6, amended. For a grouped submission (entry, stop loss, take profit) answered
  with status \<^verbatim>\<open>ok\<close>, only the first entry of the statuses array is evaluated: the
  hunter's \<^verbatim>\<open>enter_position\<close> and the scalping bot's \<^verbatim>\<open>place_grouped_order\<close> give
  the same result whatever the statuses of the two protective orders are. When the
  first status is a fill, the hunter records the position as open with the filled
  size, the direction and the entry status; there is no classification of a mixed
  outcome and no flag for unconfirmed protective orders.
\<close>

theorem grouped_first_status_only:
  "enter_position sign st d snap (now, ok_reply (s0 # rest)) clock =
     enter_position sign st d snap (now, ok_reply (s0 # rest')) clock
   \<and> scalping_place_grouped_order sign e p tp sl (now, ok_reply (s0 # rest)) =
     scalping_place_grouped_order sign e p tp sl (now, ok_reply (s0 # rest'))
   \<and> (build_orders d snap = Inr (orders, px)
        \<and> sign (OrderAction orders NormalTpsl) None (nonce_of_clock now) True = Inr sg
        \<and> totalSz f = Some z \<longrightarrow>
      fst (enter_position sign st d snap (now, ok_reply (Filled f # rest)) clock) =
        st\<lparr>entry_order_data := Some (Filled f), position_size := Some z,
           position_direction := Some d, position_open := True, entry_time := Some clock,
           entry_price := Some px\<rparr>)"
proof (intro conjI impI)
  show "enter_position sign st d snap (now, ok_reply (s0 # rest)) clock =
     enter_position sign st d snap (now, ok_reply (s0 # rest')) clock"
    by (rule enter_position_rest_irrelevant)
  show "scalping_place_grouped_order sign e p tp sl (now, ok_reply (s0 # rest)) =
     scalping_place_grouped_order sign e p tp sl (now, ok_reply (s0 # rest'))"
    by (rule scalping_rest_irrelevant)
next
  assume h: "build_orders d snap = Inr (orders, px)
        \<and> sign (OrderAction orders NormalTpsl) None (nonce_of_clock now) True = Inr sg
        \<and> totalSz f = Some z"
  then show "fst (enter_position sign st d snap (now, ok_reply (Filled f # rest)) clock) =
        st\<lparr>entry_order_data := Some (Filled f), position_size := Some z,
           position_direction := Some d, position_open := True, entry_time := Some clock,
           entry_price := Some px\<rparr>"
    by (simp add: enter_position_filled)
qed

theorem grouped_first_status_only_witness:
  "build_orders Long sample_snapshot = Inr (sample_orders, 128)
   \<and> sample_signer (OrderAction sample_orders NormalTpsl) None (nonce_of_clock 1700000000) True
       = Inr \<lparr>sig_r = ''0x1'', sig_s = ''0x2'', sig_v = 27\<rparr>
   \<and> totalSz hunter_fill = Some (float_lit 352 100)
   \<and> fst (enter_position sample_signer hunter_flat Long sample_snapshot
        (1700000000, ok_reply [Filled hunter_fill, ErrorStatus ''Invalid TP/SL price'', Resting 11])
        1700000001) =
      hunter_flat\<lparr>entry_order_data := Some (Filled hunter_fill),
         position_size := Some (float_lit 352 100),
         position_direction := Some Long, position_open := True,
         entry_time := Some 1700000001, entry_price := Some 128\<rparr>"
proof -
  have b: "build_orders Long sample_snapshot = Inr (sample_orders, 128)"
    by (rule build_orders_sample_orders)
  have s: "sample_signer (OrderAction sample_orders NormalTpsl) None (nonce_of_clock 1700000000) True
       = Inr \<lparr>sig_r = ''0x1'', sig_s = ''0x2'', sig_v = 27\<rparr>"
    by (simp add: sample_signer_def)
  have z: "totalSz hunter_fill = Some (float_lit 352 100)"
    by (simp add: hunter_fill_def)
  note t = grouped_first_status_only [where sign = sample_signer and st = hunter_flat
      and d = Long and snap = sample_snapshot and now = 1700000000 and orders = sample_orders
      and px = 128 and sg = "\<lparr>sig_r = ''0x1'', sig_s = ''0x2'', sig_v = 27\<rparr>"
      and f = hunter_fill and z = "float_lit 352 100"
      and rest = "[ErrorStatus ''Invalid TP/SL price'', Resting 11]" and clock = 1700000001]
  have d: "fst (enter_position sample_signer hunter_flat Long sample_snapshot
        (1700000000, ok_reply [Filled hunter_fill, ErrorStatus ''Invalid TP/SL price'', Resting 11])
        1700000001) =
      hunter_flat\<lparr>entry_order_data := Some (Filled hunter_fill),
         position_size := Some (float_lit 352 100),
         position_direction := Some Long, position_open := True,
         entry_time := Some 1700000001, entry_price := Some 128\<rparr>"
    by (rule mp [OF t [THEN conjunct2, THEN conjunct2]]) (intro conjI b s z)
  show ?thesis by (intro conjI b s z d)
qed

theorem grouped_mixed_outcome_not_flagged:
  "enter_position sample_signer hunter_flat Long sample_snapshot
     (1700000000, ok_reply [Filled hunter_fill, ErrorStatus ''Invalid TP/SL price'', Resting 11])
     1700000001 =
   enter_position sample_signer hunter_flat Long sample_snapshot
     (1700000000, ok_reply [Filled hunter_fill, Resting 10, Resting 11]) 1700000001
   \<and> position_open (fst (enter_position sample_signer hunter_flat Long sample_snapshot
        (1700000000, ok_reply [Filled hunter_fill, ErrorStatus ''Invalid TP/SL price'', Resting 11])
        1700000001))
   \<and> posted_actions (snd (enter_position sample_signer hunter_flat Long sample_snapshot
        (1700000000, ok_reply [Filled hunter_fill, ErrorStatus ''Invalid TP/SL price'', Resting 11])
        1700000001)) = [OrderAction sample_orders NormalTpsl]"
proof -
  have r: "enter_position sample_signer hunter_flat Long sample_snapshot
     (1700000000, ok_reply [Filled hunter_fill, ErrorStatus ''Invalid TP/SL price'', Resting 11])
     1700000001 =
     (hunter_flat\<lparr>entry_order_data := Some (Filled hunter_fill),
         position_size := Some (float_lit 352 100),
         position_direction := Some Long, position_open := True,
         entry_time := Some 1700000001, entry_price := Some 128\<rparr>,
      [Post \<lparr>pl_action = OrderAction sample_orders NormalTpsl,
             pl_nonce = nonce_of_clock 1700000000,
             pl_signature = \<lparr>sig_r = ''0x1'', sig_s = ''0x2'', sig_v = 27\<rparr>,
             pl_vaultAddress = None\<rparr>])"
    by (rule enter_position_filled [OF build_orders_sample_orders])
      (simp_all add: sample_signer_def hunter_fill_def)
  show ?thesis
  proof (intro conjI)
    show "enter_position sample_signer hunter_flat Long sample_snapshot
     (1700000000, ok_reply [Filled hunter_fill, ErrorStatus ''Invalid TP/SL price'', Resting 11])
     1700000001 =
     enter_position sample_signer hunter_flat Long sample_snapshot
     (1700000000, ok_reply [Filled hunter_fill, Resting 10, Resting 11]) 1700000001"
      by (rule enter_position_rest_irrelevant)
    show "position_open (fst (enter_position sample_signer hunter_flat Long sample_snapshot
        (1700000000, ok_reply [Filled hunter_fill, ErrorStatus ''Invalid TP/SL price'', Resting 11])
        1700000001))"
      unfolding r by simp
    show "posted_actions (snd (enter_position sample_signer hunter_flat Long sample_snapshot
        (1700000000, ok_reply [Filled hunter_fill, ErrorStatus ''Invalid TP/SL price'', Resting 11])
        1700000001)) = [OrderAction sample_orders NormalTpsl]"
      unfolding r by simp
  qed
qed

section \<open>Error outcomes of a submission\<close>










end
